theory Spec2Isabelle
  imports Main "HOL-Library.Word" "HOL-Library.Sublist"
begin

section \<open>The AODVv2 engine of sys/net/aodvv2/aodvv2.c\<close>

text \<open>
  The file holds the engine of the routing protocol: the static send and receive
  functions run by the engine thread, its dispatch loop, the initialisation and the
  public request functions. Everything it calls lives in other modules (the RFC 5444
  codec, the sequence-number store, the tables, the metric module, the network stack and
  the kernel). The embedding keeps the file's globals in one \<open>state\<close> record, appends
  every call that leaves the file to a trace, and takes what the other modules answer
  from an \<open>env\<close> record, so that each theorem holds for whatever they answer.
\<close>

subsection \<open>Data\<close>

type_synonym ipv6_addr_t = "128 word"
type_synonym aodvv2_seqnum_t = "16 word"

text \<open>\<open>kernel_pid_t\<close> is a signed 16-bit integer; no arithmetic is done on it.\<close>

type_synonym kernel_pid_t = int

text \<open>An enumeration constant of \<open>aodvv2_metric_t\<close> (a C \<open>int\<close>).\<close>

type_synonym aodvv2_metric_t = int

text \<open>\<open>struct netaddr\<close>: sixteen address bytes, the address family and the prefix length.\<close>

record netaddr =
  na_addr :: "128 word"
  na_type :: "8 word"
  na_prefix_len :: "8 word"

record node_data_t =
  addr :: netaddr
  metric :: "8 word"
  seqnum :: aodvv2_seqnum_t

text \<open>
  \<open>aodvv2_packet_data_t\<close>, with the members this file reads or writes. The header that
  declares it is not part of the file.
\<close>

record aodvv2_packet_data_t =
  hoplimit :: "8 word"
  metric_type :: aodvv2_metric_t
  orig_node :: node_data_t
  targ_node :: node_data_t

text \<open>\<open>aodvv2_msg_t\<close>: the heap block handed to the engine thread.\<close>

record aodvv2_msg_t =
  msg_pkt :: aodvv2_packet_data_t
  msg_next_hop :: ipv6_addr_t

datatype rfc5444_msgtype = RFC5444_MSGTYPE_RREQ | RFC5444_MSGTYPE_RREP

text \<open>
  \<open>aodvv2_writer_target_t\<close>: the members set by this file besides the codec's own
  \<open>target\<close> structure. \<open>wt_type\<close> is \<open>None\<close> until a send has tagged the context.
\<close>

record aodvv2_writer_target_t =
  wt_target_addr :: ipv6_addr_t
  wt_packet_data :: aodvv2_packet_data_t
  wt_type :: "rfc5444_msgtype option"

text \<open>
  The type tag of a kernel message. The dispatch loop switches on it; every value that
  is none of the named constants is \<open>MSG_TYPE_OTHER\<close>.
\<close>

datatype msg_type =
    AODVV2_MSG_TYPE_SEND_RREQ
  | AODVV2_MSG_TYPE_SEND_RREP
  | GNRC_NETAPI_MSG_TYPE_RCV
  | GNRC_NETAPI_MSG_TYPE_SND
  | GNRC_NETAPI_MSG_TYPE_SET
  | GNRC_NETAPI_MSG_TYPE_GET
  | GNRC_NETAPI_MSG_TYPE_ACK
  | MSG_TYPE_OTHER nat

text \<open>
  A packet pointer \<open>gnrc_pktsnip_t *\<close> is the list of the identifiers of the snips
  reached from it along \<open>next\<close>; the null pointer is the empty list.
\<close>

type_synonym pkt_ptr = "nat list"

text \<open>
  The \<open>content\<close> union of a kernel message: a pointer to a heap block, a pointer to a
  packet, or a 32-bit value.
\<close>

datatype msg_content = ContentPtr nat | ContentPkt pkt_ptr | ContentValue "32 word"

record msg_t =
  m_type :: msg_type
  m_content :: msg_content

datatype gnrc_nettype_t =
  GNRC_NETTYPE_UNDEF | GNRC_NETTYPE_NETIF | GNRC_NETTYPE_IPV6 | GNRC_NETTYPE_UDP

text \<open>What the \<open>data\<close> pointer of a snip points to.\<close>

datatype snip_data =
    RawBytes "8 word list"
  | UdpHdr "16 word" "16 word"
  | Ipv6Hdr ipv6_addr_t ipv6_addr_t
  | NetifHdr "nat option"

record gnrc_pktsnip_t =
  snip_data :: "snip_data option"
  snip_size :: nat
  snip_type :: gnrc_nettype_t
  snip_users :: nat

datatype lock = WRITER_LOCK | READER_LOCK

datatype rfc5444_result = RFC5444_OKAY | RFC5444_ERROR int

text \<open>The calls that leave the file, in the order they are made.\<close>

datatype event =
    Debug string
  | DebugHexdump "snip_data option"
  | MutexInit lock
  | MutexLock lock
  | MutexUnlock lock
  | ThreadCreate kernel_pid_t
  | NetapiGet nat int
  | SeqnumInit
  | SeqnumGet
  | SeqnumInc
  | RoutingtableInit
  | ClientInit
  | RreqtableInit
  | ClientAdd ipv6_addr_t "8 word" aodvv2_metric_t
  | RreqtableAdd aodvv2_packet_data_t
  | NetregRegister gnrc_nettype_t "16 word" kernel_pid_t
  | ReaderInit
  | ReaderRrepRegister
  | ReaderRreqRegister
  | WriterInit
  | WriterRegisterTarget
  | WriterRegister
  | WriterCreateMessage rfc5444_msgtype
  | WriterFlush
  | Malloc "nat option"
  | Free nat
  | MsgInitQueue
  | MsgSend msg_t kernel_pid_t int
  | MsgReply msg_t msg_t
  | PktbufAdd "nat option"
  | PktbufRelease pkt_ptr
  | DispatchSend pkt_ptr int
  | HandlePacketPrepare ipv6_addr_t
  | ReaderHandlePacket "snip_data option" nat rfc5444_result

text \<open>
  The globals of the file (\<open>_pid\<close>, \<open>_netif\<close>, \<open>_na_netif\<close>, \<open>netreg\<close>,
  \<open>_writer_context\<close>), the state of the modules it drives (the sequence-number store,
  the C heap, the packet buffer, the inbox of the engine thread) and the trace.
\<close>

record state =
  pid :: kernel_pid_t
  netif :: "nat option"
  na_netif :: netaddr
  netreg :: "16 word \<times> kernel_pid_t"
  writer_context :: aodvv2_writer_target_t
  seqnum_store :: aodvv2_seqnum_t
  heap :: "nat \<rightharpoonup> aodvv2_msg_t"
  heap_next :: nat
  pktbuf :: "nat \<rightharpoonup> gnrc_pktsnip_t"
  pktbuf_next :: nat
  msg_queue :: "msg_t list"
  trace :: "event list"

text \<open>
  The configuration macros and constants of headers that are not part of the file, the
  pure functions of other modules, and the answers of the calls that can fail. An answer
  may depend on the whole state, the trace included.
\<close>

record env =
  CONFIG_AODVV2_DEFAULT_METRIC :: aodvv2_metric_t
  METRIC_HOP_COUNT :: aodvv2_metric_t
  AODVV2_PREFIX_LEN :: "8 word"
  CONFIG_AODVV2_RFC5444_PROTOCOL_PORT :: "16 word"
  ENOTSUP :: int
  sizeof_gnrc_netif_hdr_t :: nat
  ipv6_addr_all_manet_routers_link_local :: ipv6_addr_t
  aodvv2_metric_max :: "aodvv2_metric_t \<Rightarrow> 8 word"
  ipv6_addr_to_netaddr :: "ipv6_addr_t \<Rightarrow> netaddr"
  seqnum_next :: "aodvv2_seqnum_t \<Rightarrow> aodvv2_seqnum_t"
  seqnum_first :: aodvv2_seqnum_t
  malloc_fails :: "state \<Rightarrow> bool"
  msg_send_result :: "state \<Rightarrow> int"
  thread_create_result :: "state \<Rightarrow> kernel_pid_t"
  netapi_get_result :: "state \<Rightarrow> int \<times> ipv6_addr_t"
  pktbuf_full :: "state \<Rightarrow> bool"
  dispatch_send_result :: "state \<Rightarrow> int"
  reader_handle_packet_result :: "state \<Rightarrow> rfc5444_result"
  writer_output :: "aodvv2_writer_target_t \<Rightarrow> 8 word list list"

text \<open>
  A fatal end of the calling thread: a failed \<open>assert\<close>, a null pointer dereferenced,
  or a pointer that does not point to what the code takes it for. A function that can
  end so returns \<open>Inl\<close> of the fault and of the state in which it happened.
\<close>

datatype fault = AssertionFailed | NullDereference | InvalidPointer

type_synonym 'a result = "(fault \<times> state) + 'a"

text \<open>\<open>KERNEL_PID_UNDEF\<close> is 0 in the kernel's headers; valid thread ids start at 1.\<close>

definition KERNEL_PID_UNDEF :: kernel_pid_t where
  "KERNEL_PID_UNDEF = 0"

definition log_event :: "event \<Rightarrow> state \<Rightarrow> state" where
  "log_event ev s = s\<lparr>trace := trace s @ [ev]\<rparr>"

subsection \<open>The sequence-number store and the request table\<close>

text \<open>
  Modelled from the spec: the sequence-number store (\<open>seqnum.c\<close> is not part of the
  file) holds one current value; \<open>aodvv2_seqnum_get\<close> returns it and
  \<open>aodvv2_seqnum_inc\<close> replaces it by the next one, which the environment gives.
\<close>

definition aodvv2_seqnum_get :: "state \<Rightarrow> aodvv2_seqnum_t \<times> state" where
  "aodvv2_seqnum_get s = (seqnum_store s, log_event SeqnumGet s)"

definition aodvv2_seqnum_inc :: "env \<Rightarrow> state \<Rightarrow> state" where
  "aodvv2_seqnum_inc e s =
     log_event SeqnumInc (s\<lparr>seqnum_store := seqnum_next e (seqnum_store s)\<rparr>)"

text \<open>
  Modelled from the spec: the duplicate-suppression table (\<open>rreqtable.c\<close> is not part of
  the file) is told of the request; the call is recorded with the packet it was given.
\<close>

definition aodvv2_rreqtable_add :: "aodvv2_packet_data_t \<Rightarrow> state \<Rightarrow> state" where
  "aodvv2_rreqtable_add pkt s = log_event (RreqtableAdd pkt) s"

subsection \<open>The public request functions\<close>

text \<open>
  \<open>malloc\<close>: a null pointer when the environment says so, a fresh block otherwise.
  Addresses are never reused.
\<close>

definition malloc :: "env \<Rightarrow> state \<Rightarrow> nat option \<times> state" where
  "malloc e s =
     (if malloc_fails e s then (None, log_event (Malloc None) s)
      else (Some (heap_next s),
            log_event (Malloc (Some (heap_next s))) (s\<lparr>heap_next := Suc (heap_next s)\<rparr>)))"

text \<open>
  \<open>msg_send\<close>: the kernel's answer comes from the environment; an answer of at least 1
  puts the message into the inbox of the engine thread.
\<close>

definition msg_send :: "env \<Rightarrow> msg_t \<Rightarrow> kernel_pid_t \<Rightarrow> state \<Rightarrow> int \<times> state" where
  "msg_send e m p s =
     (let r = msg_send_result e s;
          s1 = log_event (MsgSend m p r) s
      in (r, if r < 1 then s1 else s1\<lparr>msg_queue := msg_queue s1 @ [m]\<rparr>))"

definition aodvv2_send_rreq ::
  "env \<Rightarrow> aodvv2_packet_data_t \<Rightarrow> ipv6_addr_t \<Rightarrow> state \<Rightarrow> int \<times> state" where
  "aodvv2_send_rreq e pkt next_hop s =
     (case malloc e s of
        (None, s1) \<Rightarrow> (- 1, log_event (Debug ''aodvv2: out of memory!'') s1)
      | (Some p, s1) \<Rightarrow>
          (let s2 = s1\<lparr>heap := (heap s1)(p \<mapsto> \<lparr>msg_pkt = pkt, msg_next_hop = next_hop\<rparr>)\<rparr>;
               ipc_msg = \<lparr>m_type = AODVV2_MSG_TYPE_SEND_RREQ, m_content = ContentPtr p\<rparr>;
               (r, s3) = msg_send e ipc_msg (pid s2) s2
           in if r < 1 then (- 1, log_event (Debug ''aodvv2: couldn't send RREQ.'') s3)
              else (0, s3)))"

definition aodvv2_send_rrep ::
  "env \<Rightarrow> aodvv2_packet_data_t \<Rightarrow> ipv6_addr_t \<Rightarrow> state \<Rightarrow> int \<times> state" where
  "aodvv2_send_rrep e pkt next_hop s =
     (case malloc e s of
        (None, s1) \<Rightarrow> (- 1, log_event (Debug ''aodvv2: out of memory!'') s1)
      | (Some p, s1) \<Rightarrow>
          (let s2 = s1\<lparr>heap := (heap s1)(p \<mapsto> \<lparr>msg_pkt = pkt, msg_next_hop = next_hop\<rparr>)\<rparr>;
               ipc_msg = \<lparr>m_type = AODVV2_MSG_TYPE_SEND_RREP, m_content = ContentPtr p\<rparr>;
               (r, s3) = msg_send e ipc_msg (pid s2) s2
           in if r < 1 then (- 1, log_event (Debug ''aodvv2: couldn't send RREQ.'') s3)
              else (0, s3)))"

subsection \<open>Route discovery\<close>

text \<open>
  The packet that \<open>aodvv2_find_route\<close> builds in its local \<open>pkt\<close> (lines 438 to 453),
  from the state in which the function is entered.
\<close>

definition find_route_pkt :: "env \<Rightarrow> ipv6_addr_t \<Rightarrow> state \<Rightarrow> aodvv2_packet_data_t" where
  "find_route_pkt e target_addr s =
     \<lparr>hoplimit = aodvv2_metric_max e (METRIC_HOP_COUNT e),
      metric_type = CONFIG_AODVV2_DEFAULT_METRIC e,
      orig_node = \<lparr>addr = na_netif s, metric = 0, seqnum = fst (aodvv2_seqnum_get s)\<rparr>,
      targ_node = \<lparr>addr = ipv6_addr_to_netaddr e target_addr, metric = 0, seqnum = 0\<rparr>\<rparr>"

definition aodvv2_find_route :: "env \<Rightarrow> ipv6_addr_t \<Rightarrow> state \<Rightarrow> int \<times> state" where
  "aodvv2_find_route e target_addr s =
     (let pkt = find_route_pkt e target_addr s;
          s1 = snd (aodvv2_seqnum_get s);
          s2 = aodvv2_seqnum_inc e s1;
          s3 = aodvv2_rreqtable_add pkt s2
      in aodvv2_send_rreq e pkt (ipv6_addr_all_manet_routers_link_local e) s3)"

subsection \<open>The packet buffer and the header builders\<close>

text \<open>
  Modelled from the spec: the packet buffer of the network stack (not part of the file).
  \<open>gnrc_pktbuf_add\<close> returns the null pointer when the buffer is full, and otherwise a
  fresh snip with one user, linked in front of \<open>next\<close>. \<open>gnrc_pktbuf_release\<close> takes one
  user from every snip of the chain and frees a snip that has no user left.
\<close>

definition gnrc_pktbuf_add ::
  "env \<Rightarrow> pkt_ptr \<Rightarrow> snip_data \<Rightarrow> nat \<Rightarrow> gnrc_nettype_t \<Rightarrow> state \<Rightarrow> pkt_ptr \<times> state" where
  "gnrc_pktbuf_add e nxt d sz ty s =
     (if pktbuf_full e s then ([], log_event (PktbufAdd None) s)
      else (pktbuf_next s # nxt,
            log_event (PktbufAdd (Some (pktbuf_next s)))
              (s\<lparr>pktbuf := (pktbuf s)(pktbuf_next s \<mapsto>
                    \<lparr>snip_data = Some d, snip_size = sz, snip_type = ty, snip_users = 1\<rparr>),
                 pktbuf_next := Suc (pktbuf_next s)\<rparr>)))"

fun release_snips :: "nat list \<Rightarrow> (nat \<rightharpoonup> gnrc_pktsnip_t) \<Rightarrow> (nat \<rightharpoonup> gnrc_pktsnip_t)" where
  "release_snips [] b = b"
| "release_snips (n # ns) b =
     release_snips ns
       (case b n of
          None \<Rightarrow> b
        | Some sn \<Rightarrow>
            if snip_users sn \<le> 1 then b(n := None)
            else b(n \<mapsto> sn\<lparr>snip_users := snip_users sn - 1\<rparr>))"

definition gnrc_pktbuf_release :: "pkt_ptr \<Rightarrow> state \<Rightarrow> state" where
  "gnrc_pktbuf_release pkt s =
     log_event (PktbufRelease pkt) (s\<lparr>pktbuf := release_snips pkt (pktbuf s)\<rparr>)"

definition gnrc_udp_hdr_build ::
  "env \<Rightarrow> pkt_ptr \<Rightarrow> 16 word \<Rightarrow> 16 word \<Rightarrow> state \<Rightarrow> pkt_ptr \<times> state" where
  "gnrc_udp_hdr_build e payload src dst s =
     gnrc_pktbuf_add e payload (UdpHdr src dst) 8 GNRC_NETTYPE_UDP s"

text \<open>A null source pointer leaves the unspecified address in the header.\<close>

definition gnrc_ipv6_hdr_build ::
  "env \<Rightarrow> pkt_ptr \<Rightarrow> ipv6_addr_t option \<Rightarrow> ipv6_addr_t \<Rightarrow> state \<Rightarrow> pkt_ptr \<times> state" where
  "gnrc_ipv6_hdr_build e payload src dst s =
     gnrc_pktbuf_add e payload
       (Ipv6Hdr (case src of None \<Rightarrow> 0 | Some a \<Rightarrow> a) dst) 40 GNRC_NETTYPE_IPV6 s"

definition gnrc_netif_hdr_build :: "env \<Rightarrow> state \<Rightarrow> pkt_ptr \<times> state" where
  "gnrc_netif_hdr_build e s =
     gnrc_pktbuf_add e [] (NetifHdr None) (sizeof_gnrc_netif_hdr_t e) GNRC_NETTYPE_NETIF s"

text \<open>\<open>gnrc_netif_hdr_set_netif(hdr->data, netif)\<close> on the snip \<open>n\<close>.\<close>

definition gnrc_netif_hdr_set_netif :: "nat \<Rightarrow> nat option \<Rightarrow> state \<Rightarrow> state" where
  "gnrc_netif_hdr_set_netif n nif s =
     (case pktbuf s n of
        None \<Rightarrow> s
      | Some sn \<Rightarrow> s\<lparr>pktbuf := (pktbuf s)(n \<mapsto> sn\<lparr>snip_data := Some (NetifHdr nif)\<rparr>)\<rparr>)"

text \<open>
  \<open>gnrc_netapi_dispatch_send\<close>: the number of receivers comes from the environment. With
  at least one receiver the packet belongs to them from then on.
\<close>

definition gnrc_netapi_dispatch_send ::
  "env \<Rightarrow> pkt_ptr \<Rightarrow> state \<Rightarrow> int \<times> state" where
  "gnrc_netapi_dispatch_send e pkt s =
     (dispatch_send_result e s, log_event (DispatchSend pkt (dispatch_send_result e s)) s)"

text \<open>
  \<open>gnrc_ipv6_get_header\<close>: the source and destination of the first snip of the chain
  that is typed as an IPv6 header, the null pointer when there is none.
\<close>

fun gnrc_ipv6_get_header ::
  "(nat \<rightharpoonup> gnrc_pktsnip_t) \<Rightarrow> pkt_ptr \<Rightarrow> (ipv6_addr_t \<times> ipv6_addr_t) option" where
  "gnrc_ipv6_get_header b [] = None"
| "gnrc_ipv6_get_header b (n # ns) =
     (case b n of
        None \<Rightarrow> gnrc_ipv6_get_header b ns
      | Some sn \<Rightarrow>
          if snip_type sn = GNRC_NETTYPE_IPV6
          then (case snip_data sn of
                  Some (Ipv6Hdr src dst) \<Rightarrow> Some (src, dst)
                | _ \<Rightarrow> None)
          else gnrc_ipv6_get_header b ns)"

subsection \<open>The transmission sink\<close>

text \<open>
  \<open>_send_packet\<close>. The codec calls it with its own writer and target, which are not
  null; \<open>buffer\<close> is \<open>None\<close> for a null pointer and its length is that of the list.
\<close>

definition send_packet :: "env \<Rightarrow> 8 word list option \<Rightarrow> state \<Rightarrow> state result" where
  "send_packet e buffer s =
     (case buffer of
        None \<Rightarrow> Inl (AssertionFailed, s)
      | Some buf \<Rightarrow>
        if length buf = 0 then Inl (AssertionFailed, s)
        else
          let s0 = log_event (DebugHexdump (Some (RawBytes buf))) s;
              ctx = writer_context s0;
              (payload, s1) =
                 gnrc_pktbuf_add e [] (RawBytes buf) (length buf) GNRC_NETTYPE_UNDEF s0
          in if payload = []
             then Inr (log_event (Debug ''aodvv2: couldn't allocate payload'') s1)
             else
               let port = CONFIG_AODVV2_RFC5444_PROTOCOL_PORT e;
                   (udp, s2) = gnrc_udp_hdr_build e payload port port s1
               in if udp = []
                  then Inr (gnrc_pktbuf_release payload
                              (log_event (Debug ''aodvv2: unable to allocate UDP header'') s2))
                  else
                    let (ip, s3) = gnrc_ipv6_hdr_build e udp None (wt_target_addr ctx) s2
                    in if ip = []
                       then Inr (gnrc_pktbuf_release udp
                              (log_event (Debug ''aodvv2: unable to allocate IPv6 header'') s3))
                       else
                         let (netif_hdr, s4) = gnrc_netif_hdr_build e s3
                         in (case netif_hdr of
                               [] \<Rightarrow> Inl (NullDereference, s4)
                             | n # _ \<Rightarrow>
                                 let s5 = gnrc_netif_hdr_set_netif n (netif s4) s4;
                                     ip' = netif_hdr @ ip;
                                     (res, s6) = gnrc_netapi_dispatch_send e ip' s5
                                 in if res < 1
                                    then Inr (gnrc_pktbuf_release ip'
                                           (log_event
                                              (Debug ''aodvv2: unable to locate UDP thread'') s6))
                                    else Inr s6))"

subsection \<open>The writer context\<close>

text \<open>
  Modelled from the spec: the codec (not part of the file) materialises the message of
  the writer context and, on the flush, hands each encoded buffer to the sink registered
  by \<open>aodvv2_init\<close>, which is \<open>_send_packet\<close>. The buffers come from the environment; the
  codec reads the writer context and does not write it.
\<close>

fun send_packets :: "env \<Rightarrow> 8 word list list \<Rightarrow> state \<Rightarrow> state result" where
  "send_packets e [] s = Inr s"
| "send_packets e (b # bs) s =
     (case send_packet e (Some b) s of
        Inl f \<Rightarrow> Inl f
      | Inr s' \<Rightarrow> send_packets e bs s')"

definition rfc5444_writer_create_message_alltarget ::
  "rfc5444_msgtype \<Rightarrow> state \<Rightarrow> state" where
  "rfc5444_writer_create_message_alltarget ty s = log_event (WriterCreateMessage ty) s"

definition rfc5444_writer_flush :: "env \<Rightarrow> state \<Rightarrow> state result" where
  "rfc5444_writer_flush e s =
     send_packets e (writer_output e (writer_context s)) (log_event WriterFlush s)"

text \<open>\<open>_send_rreq\<close> and \<open>_send_rrep\<close>; a null argument is \<open>None\<close>.\<close>

definition send_rreq ::
  "env \<Rightarrow> aodvv2_packet_data_t option \<Rightarrow> ipv6_addr_t option \<Rightarrow> state \<Rightarrow> state result" where
  "send_rreq e packet_data next_hop s =
     (case (packet_data, next_hop) of
        (Some pd, Some nh) \<Rightarrow>
          let s1 = log_event (MutexLock WRITER_LOCK) s;
              s2 = s1\<lparr>writer_context := (writer_context s1)\<lparr>wt_packet_data := pd\<rparr>\<rparr>;
              s3 = s2\<lparr>writer_context := (writer_context s2)\<lparr>wt_type := Some RFC5444_MSGTYPE_RREQ\<rparr>\<rparr>;
              s4 = s3\<lparr>writer_context := (writer_context s3)
                      \<lparr>wt_packet_data := (wt_packet_data (writer_context s3))
                          \<lparr>hoplimit := hoplimit pd\<rparr>\<rparr>\<rparr>;
              s5 = s4\<lparr>writer_context := (writer_context s4)\<lparr>wt_target_addr := nh\<rparr>\<rparr>;
              s6 = rfc5444_writer_create_message_alltarget RFC5444_MSGTYPE_RREQ s5
          in (case rfc5444_writer_flush e s6 of
                Inl f \<Rightarrow> Inl f
              | Inr s7 \<Rightarrow> Inr (log_event (MutexUnlock WRITER_LOCK) s7))
      | _ \<Rightarrow> Inl (AssertionFailed, s))"

definition send_rrep ::
  "env \<Rightarrow> aodvv2_packet_data_t option \<Rightarrow> ipv6_addr_t option \<Rightarrow> state \<Rightarrow> state result" where
  "send_rrep e packet_data next_hop s =
     (case (packet_data, next_hop) of
        (Some pd, Some nh) \<Rightarrow>
          let s1 = log_event (MutexLock WRITER_LOCK) s;
              s2 = s1\<lparr>writer_context := (writer_context s1)\<lparr>wt_packet_data := pd\<rparr>\<rparr>;
              s3 = s2\<lparr>writer_context := (writer_context s2)\<lparr>wt_type := Some RFC5444_MSGTYPE_RREP\<rparr>\<rparr>;
              s4 = s3\<lparr>writer_context := (writer_context s3)
                      \<lparr>wt_packet_data := (wt_packet_data (writer_context s3))
                          \<lparr>hoplimit := hoplimit pd\<rparr>\<rparr>\<rparr>;
              s5 = s4\<lparr>writer_context := (writer_context s4)\<lparr>wt_target_addr := nh\<rparr>\<rparr>;
              s6 = rfc5444_writer_create_message_alltarget RFC5444_MSGTYPE_RREP s5
          in (case rfc5444_writer_flush e s6 of
                Inl f \<Rightarrow> Inl f
              | Inr s7 \<Rightarrow> Inr (log_event (MutexUnlock WRITER_LOCK) s7))
      | _ \<Rightarrow> Inl (AssertionFailed, s))"

subsection \<open>The reception pipeline\<close>

text \<open>
  Modelled from the spec: the reader of the codec (not part of the file) parses the
  payload and runs the registered handlers; this file sees its result code only, which
  comes from the environment.
\<close>

definition rfc5444_reader_handle_packet ::
  "env \<Rightarrow> snip_data option \<Rightarrow> nat \<Rightarrow> state \<Rightarrow> rfc5444_result \<times> state" where
  "rfc5444_reader_handle_packet e d sz s =
     (reader_handle_packet_result e s,
      log_event (ReaderHandlePacket d sz (reader_handle_packet_result e s)) s)"

text \<open>\<open>_receive\<close>. A packet pointer that is not null points to a snip of the buffer.\<close>

definition receive :: "env \<Rightarrow> pkt_ptr \<Rightarrow> state \<Rightarrow> state result" where
  "receive e pkt s =
     (case pkt of
        [] \<Rightarrow> Inl (AssertionFailed, s)
      | n # _ \<Rightarrow>
        (case pktbuf s n of
           None \<Rightarrow> Inl (InvalidPointer, s)
         | Some sn \<Rightarrow>
           if \<not> (snip_data sn \<noteq> None \<and> snip_size sn > 0) then Inl (AssertionFailed, s)
           else
             let s0 = log_event (DebugHexdump (snip_data sn)) s
             in (case gnrc_ipv6_get_header (pktbuf s0) pkt of
                   None \<Rightarrow> Inl (AssertionFailed, s0)
                 | Some (src, dst) \<Rightarrow>
                     let sender = src;
                         s1 = log_event (MutexLock READER_LOCK) s0;
                         s2 = log_event (HandlePacketPrepare sender) s1;
                         (res, s3) =
                            rfc5444_reader_handle_packet e (snip_data sn) (snip_size sn) s2;
                         s4 = (if res \<noteq> RFC5444_OKAY
                               then log_event (Debug ''aodvv2: couldn't handle packet!'') s3
                               else s3);
                         s5 = log_event (MutexUnlock READER_LOCK) s4
                     in Inr (gnrc_pktbuf_release pkt s5))))"

subsection \<open>The dispatch loop\<close>

definition free :: "nat \<Rightarrow> state \<Rightarrow> state" where
  "free p s = log_event (Free p) (s\<lparr>heap := (heap s)(p := None)\<rparr>)"

definition msg_reply :: "msg_t \<Rightarrow> msg_t \<Rightarrow> state \<Rightarrow> state" where
  "msg_reply m reply s = log_event (MsgReply m reply) s"

text \<open>
  The body of the \<open>while (1)\<close> of \<open>_event_loop\<close> for one received message. \<open>reply\<close> is
  the local that the function fills in before the loop.
\<close>

definition event_loop_body :: "env \<Rightarrow> msg_t \<Rightarrow> msg_t \<Rightarrow> state \<Rightarrow> state result" where
  "event_loop_body e reply m s =
     (case m_type m of
        AODVV2_MSG_TYPE_SEND_RREQ \<Rightarrow>
          (let s1 = log_event (Debug ''AODVV2_MSG_TYPE_SEND_RREQ'') s
           in case m_content m of
                ContentPtr p \<Rightarrow>
                  (case heap s1 p of
                     None \<Rightarrow> Inl (InvalidPointer, s1)
                   | Some am \<Rightarrow>
                       send_rreq e (Some (msg_pkt am)) (Some (msg_next_hop am)) (free p s1))
              | _ \<Rightarrow> Inl (InvalidPointer, s1))
      | AODVV2_MSG_TYPE_SEND_RREP \<Rightarrow>
          (let s1 = log_event (Debug ''AODVV2_MSG_TYPE_SEND_RREP'') s
           in case m_content m of
                ContentPtr p \<Rightarrow>
                  (case heap s1 p of
                     None \<Rightarrow> Inl (InvalidPointer, s1)
                   | Some am \<Rightarrow>
                       send_rrep e (Some (msg_pkt am)) (Some (msg_next_hop am)) (free p s1))
              | _ \<Rightarrow> Inl (InvalidPointer, s1))
      | GNRC_NETAPI_MSG_TYPE_RCV \<Rightarrow>
          (let s1 = log_event (Debug ''GNRC_NETAPI_MSG_TYPE_RCV'') s
           in case m_content m of
                ContentPkt p \<Rightarrow> receive e p s1
              | _ \<Rightarrow> Inl (InvalidPointer, s1))
      | GNRC_NETAPI_MSG_TYPE_GET \<Rightarrow> Inr (msg_reply m reply s)
      | GNRC_NETAPI_MSG_TYPE_SET \<Rightarrow> Inr (msg_reply m reply s)
      | _ \<Rightarrow> Inr (log_event (Debug ''aodvv2: received unidentified message'') s))"

text \<open>
  The loop never ends by itself. It is run on the messages that \<open>msg_receive\<close> delivers,
  in their order; when they are used up the thread waits in \<open>msg_receive\<close>, in the state
  returned. A fault ends the thread.
\<close>

fun event_loop_while :: "env \<Rightarrow> msg_t \<Rightarrow> msg_t list \<Rightarrow> state \<Rightarrow> state result" where
  "event_loop_while e reply [] s = Inr s"
| "event_loop_while e reply (m # ms) s =
     (case event_loop_body e reply m s of
        Inl f \<Rightarrow> Inl f
      | Inr s' \<Rightarrow> event_loop_while e reply ms s')"

text \<open>The \<open>reply\<close> local: \<open>(uint32_t)(-ENOTSUP)\<close>, typed as an acknowledgement.\<close>

definition event_loop_reply :: "env \<Rightarrow> msg_t" where
  "event_loop_reply e =
     \<lparr>m_type = GNRC_NETAPI_MSG_TYPE_ACK,
      m_content = ContentValue (word_of_int (- ENOTSUP e))\<rparr>"

definition event_loop :: "env \<Rightarrow> msg_t list \<Rightarrow> state \<Rightarrow> state result" where
  "event_loop e ms s =
     event_loop_while e (event_loop_reply e) ms (log_event MsgInitQueue s)"

subsection \<open>Initialisation\<close>

text \<open>
  The calls of \<open>aodvv2_init\<close> after the node's address is known (lines 323 to 375): the
  collaborators are initialised, the node is added as its own client, the thread is
  registered for the protocol's port, and the reader and the writer are set up.
\<close>

definition init_bindings :: "env \<Rightarrow> ipv6_addr_t \<Rightarrow> state \<Rightarrow> state" where
  "init_bindings e netif_addr s =
     (let s1 = s\<lparr>na_netif := ipv6_addr_to_netaddr e netif_addr\<rparr>;
          s2 = log_event SeqnumInit (s1\<lparr>seqnum_store := seqnum_first e\<rparr>);
          s3 = log_event RoutingtableInit s2;
          s4 = log_event ClientInit s3;
          s5 = log_event RreqtableInit s4;
          s6 = log_event
                 (ClientAdd netif_addr (AODVV2_PREFIX_LEN e) (CONFIG_AODVV2_DEFAULT_METRIC e)) s5;
          s7 = s6\<lparr>netreg := (CONFIG_AODVV2_RFC5444_PROTOCOL_PORT e, pid s6)\<rparr>;
          s8 = log_event
                 (NetregRegister GNRC_NETTYPE_UDP (fst (netreg s7)) (snd (netreg s7))) s7
      in foldl (\<lambda>st ev. log_event ev st) s8
           [MutexLock READER_LOCK, ReaderInit, ReaderRrepRegister, ReaderRreqRegister,
            MutexUnlock READER_LOCK,
            MutexLock WRITER_LOCK, WriterInit, WriterRegisterTarget, WriterRegister,
            MutexUnlock WRITER_LOCK])"

text \<open>
  \<open>aodvv2_init\<close>; the interface pointer is \<open>None\<close> when null. \<open>thread_create\<close> returns the
  id of the new thread or a negative error code, and \<open>gnrc_netapi_get\<close> a result code
  and the address it wrote; both come from the environment.
\<close>

definition aodvv2_init :: "env \<Rightarrow> nat option \<Rightarrow> state \<Rightarrow> (int \<times> state) result" where
  "aodvv2_init e nif s =
     (case nif of
        None \<Rightarrow> Inl (AssertionFailed, s)
      | Some i \<Rightarrow>
        if pid s \<noteq> KERNEL_PID_UNDEF then Inr (pid s, s)
        else
          let s1 = log_event (MutexInit WRITER_LOCK) s;
              s2 = log_event (MutexInit READER_LOCK) s1;
              s3 = log_event (ThreadCreate (thread_create_result e s2))
                     (s2\<lparr>pid := thread_create_result e s2\<rparr>)
          in if pid s3 < 0 then Inr (pid s3, s3)
             else
               let s4 = s3\<lparr>netif := Some i\<rparr>;
                   (r, netif_addr) = netapi_get_result e s4;
                   s5 = log_event (NetapiGet i r) s4
               in if r < 0
                  then Inr (- 1, log_event (Debug ''aodvv2_init: can't get iface IPv6 address'') s5)
                  else let s6 = init_bindings e netif_addr s5 in Inr (pid s6, s6))"

subsection \<open>Runs of several calls\<close>

text \<open>One call of \<open>aodvv2_find_route\<close> for each target of the list, in order.\<close>

fun find_route_calls :: "env \<Rightarrow> ipv6_addr_t list \<Rightarrow> state \<Rightarrow> int list \<times> state" where
  "find_route_calls e [] s = ([], s)"
| "find_route_calls e (t # ts) s =
     (let (r, s') = aodvv2_find_route e t s;
          (rs, s'') = find_route_calls e ts s'
      in (r # rs, s''))"

text \<open>
  The sequence numbers of the origin descriptors of the requests handed to the request
  table, oldest first.
\<close>

fun rreq_seqnums :: "event list \<Rightarrow> aodvv2_seqnum_t list" where
  "rreq_seqnums [] = []"
| "rreq_seqnums (RreqtableAdd p # evs) = seqnum (orig_node p) # rreq_seqnums evs"
| "rreq_seqnums (ev # evs) = rreq_seqnums evs"

text \<open>
  The route request that a message of the inbox hands to the engine thread: the work
  item on the heap that a message of type \<open>AODVV2_MSG_TYPE_SEND_RREQ\<close> points to.
\<close>

definition request_of :: "(nat \<rightharpoonup> aodvv2_msg_t) \<Rightarrow> msg_t \<Rightarrow> aodvv2_msg_t option" where
  "request_of h m =
     (case m_content m of
        ContentPtr p \<Rightarrow> if m_type m = AODVV2_MSG_TYPE_SEND_RREQ then h p else None
      | _ \<Rightarrow> None)"

text \<open>
  The sequence numbers of the origin descriptors of the route requests that a list of
  inbox messages carries, in the order of the messages.
\<close>

definition queued_seqnums :: "msg_t list \<Rightarrow> (nat \<rightharpoonup> aodvv2_msg_t) \<Rightarrow> aodvv2_seqnum_t list" where
  "queued_seqnums ms h =
     map (\<lambda>am. seqnum (orig_node (msg_pkt am))) (List.map_filter (request_of h) ms)"

text \<open>Every \<open>malloc\<close> and every \<open>msg_send\<close> succeeds.\<close>

definition sends_succeed :: "env \<Rightarrow> bool" where
  "sends_succeed e = (\<forall>st. \<not> malloc_fails e st \<and> 1 \<le> msg_send_result e st)"

text \<open>The message types that have no case of their own in the dispatch loop.\<close>

definition unidentified :: "msg_type \<Rightarrow> bool" where
  "unidentified ty =
     (case ty of
        GNRC_NETAPI_MSG_TYPE_SND \<Rightarrow> True
      | GNRC_NETAPI_MSG_TYPE_ACK \<Rightarrow> True
      | MSG_TYPE_OTHER n \<Rightarrow> True
      | _ \<Rightarrow> False)"

text \<open>Every identifier of the packet buffer in use is below the next one handed out.\<close>

definition pktbuf_fresh :: "state \<Rightarrow> bool" where
  "pktbuf_fresh s = (\<forall>k. pktbuf_next s \<le> k \<longrightarrow> pktbuf s k = None)"

subsection \<open>Example configurations and states\<close>

text \<open>
  A node with the hop count as its default metric, on which every call succeeds: the
  sequence numbers count up and skip 0 on wrap-around, the codec encodes each message
  into one buffer.
\<close>

definition example_env :: env where
  "example_env =
     \<lparr>CONFIG_AODVV2_DEFAULT_METRIC = 3,
      METRIC_HOP_COUNT = 3,
      AODVV2_PREFIX_LEN = 128,
      CONFIG_AODVV2_RFC5444_PROTOCOL_PORT = 269,
      ENOTSUP = 134,
      sizeof_gnrc_netif_hdr_t = 8,
      ipv6_addr_all_manet_routers_link_local = 0xff02000000000000000000000000006d,
      aodvv2_metric_max = (\<lambda>m. if m = 3 then 250 else 0),
      ipv6_addr_to_netaddr = (\<lambda>a. \<lparr>na_addr = a, na_type = 10, na_prefix_len = 128\<rparr>),
      seqnum_next = (\<lambda>n. if n = 65535 then 1 else n + 1),
      seqnum_first = 1,
      malloc_fails = (\<lambda>s. False),
      msg_send_result = (\<lambda>s. 1),
      thread_create_result = (\<lambda>s. 7),
      netapi_get_result = (\<lambda>s. (16, 0x20010db8000000000000000000000001)),
      pktbuf_full = (\<lambda>s. False),
      dispatch_send_result = (\<lambda>s. 1),
      reader_handle_packet_result = (\<lambda>s. RFC5444_OKAY),
      writer_output = (\<lambda>ctx. [[1, 2, 3]])\<rparr>"

text \<open>The globals as the program starts, with nothing allocated.\<close>

definition example_state :: state where
  "example_state =
     \<lparr>pid = KERNEL_PID_UNDEF,
      netif = None,
      na_netif = \<lparr>na_addr = 0, na_type = 0, na_prefix_len = 0\<rparr>,
      netreg = (0, KERNEL_PID_UNDEF),
      writer_context =
        \<lparr>wt_target_addr = 0,
         wt_packet_data =
           \<lparr>hoplimit = 0, metric_type = 0,
            orig_node = \<lparr>addr = \<lparr>na_addr = 0, na_type = 0, na_prefix_len = 0\<rparr>,
                         metric = 0, seqnum = 0\<rparr>,
            targ_node = \<lparr>addr = \<lparr>na_addr = 0, na_type = 0, na_prefix_len = 0\<rparr>,
                         metric = 0, seqnum = 0\<rparr>\<rparr>,
         wt_type = None\<rparr>,
      seqnum_store = 0,
      heap = Map.empty,
      heap_next = 0,
      pktbuf = Map.empty,
      pktbuf_next = 0,
      msg_queue = [],
      trace = []\<rparr>"

definition example_pkt :: aodvv2_packet_data_t where
  "example_pkt =
     \<lparr>hoplimit = 250, metric_type = 3,
      orig_node = \<lparr>addr = \<lparr>na_addr = 0x20010db8000000000000000000000001, na_type = 10,
                            na_prefix_len = 128\<rparr>,
                   metric = 0, seqnum = 5\<rparr>,
      targ_node = \<lparr>addr = \<lparr>na_addr = 0x20010db8000000000000000000000002, na_type = 10,
                            na_prefix_len = 128\<rparr>,
                   metric = 0, seqnum = 0\<rparr>\<rparr>"

text \<open>A configuration whose default metric is another kind than the hop count.\<close>

definition other_metric_env :: env where
  "other_metric_env = example_env\<lparr>CONFIG_AODVV2_DEFAULT_METRIC := 4\<rparr>"

text \<open>The inbox of the engine thread is full: \<open>msg_send\<close> answers 0.\<close>

definition queue_full_env :: env where
  "queue_full_env = example_env\<lparr>msg_send_result := (\<lambda>s. 0)\<rparr>"

text \<open>The packet buffer has room for three snips only.\<close>

definition small_pktbuf_env :: env where
  "small_pktbuf_env = example_env\<lparr>pktbuf_full := (\<lambda>s. 3 \<le> pktbuf_next s)\<rparr>"

text \<open>\<open>thread_create\<close> fails with \<open>-EINVAL\<close>.\<close>

definition thread_fail_env :: env where
  "thread_fail_env = example_env\<lparr>thread_create_result := (\<lambda>s. - 22)\<rparr>"

text \<open>The codec rejects the payload.\<close>

definition parse_fail_env :: env where
  "parse_fail_env = example_env\<lparr>reader_handle_packet_result := (\<lambda>s. RFC5444_ERROR 1)\<rparr>"

text \<open>A received datagram: the payload, then the UDP and the IPv6 header.\<close>

definition received_state :: state where
  "received_state =
     example_state
       \<lparr>pktbuf :=
          [0 \<mapsto> \<lparr>snip_data = Some (RawBytes [1, 2, 3]), snip_size = 3,
                  snip_type = GNRC_NETTYPE_UNDEF, snip_users = 1\<rparr>,
           1 \<mapsto> \<lparr>snip_data = Some (UdpHdr 269 269), snip_size = 8,
                  snip_type = GNRC_NETTYPE_UDP, snip_users = 1\<rparr>,
           2 \<mapsto> \<lparr>snip_data = Some (Ipv6Hdr 0x20010db8000000000000000000000002
                                        0xff02000000000000000000000000006d),
                  snip_size = 40, snip_type = GNRC_NETTYPE_IPV6, snip_users = 1\<rparr>],
        pktbuf_next := 3\<rparr>"

text \<open>A packet of one payload snip, with no IPv6 header in its chain.\<close>

definition headerless_state :: state where
  "headerless_state =
     example_state
       \<lparr>pktbuf :=
          [0 \<mapsto> \<lparr>snip_data = Some (RawBytes [1, 2, 3]), snip_size = 3,
                  snip_type = GNRC_NETTYPE_UNDEF, snip_users = 1\<rparr>],
        pktbuf_next := 1\<rparr>"

section \<open>Properties\<close>

subsection \<open>Basic facts\<close>

lemma log_event_simps:
  "trace (log_event ev s) = trace s @ [ev]"
  "pid (log_event ev s) = pid s"
  "netif (log_event ev s) = netif s"
  "na_netif (log_event ev s) = na_netif s"
  "netreg (log_event ev s) = netreg s"
  "writer_context (log_event ev s) = writer_context s"
  "seqnum_store (log_event ev s) = seqnum_store s"
  "heap (log_event ev s) = heap s"
  "heap_next (log_event ev s) = heap_next s"
  "pktbuf (log_event ev s) = pktbuf s"
  "pktbuf_next (log_event ev s) = pktbuf_next s"
  "msg_queue (log_event ev s) = msg_queue s"
  by (simp_all add: log_event_def)

lemma rreq_seqnums_append: "rreq_seqnums (xs @ ys) = rreq_seqnums xs @ rreq_seqnums ys"
  by (induction xs rule: rreq_seqnums.induct) simp_all

subsection \<open>Route discovery\<close>

text \<open>
  \<open>aodvv2_find_route\<close> reads and bumps the sequence number, registers the packet and
  calls the public send with it, in this order.
\<close>

lemma find_route_unfold:
  "aodvv2_find_route e t s =
     aodvv2_send_rreq e (find_route_pkt e t s) (ipv6_addr_all_manet_routers_link_local e)
       (s\<lparr>seqnum_store := seqnum_next e (seqnum_store s),
          trace := trace s @ [SeqnumGet, SeqnumInc, RreqtableAdd (find_route_pkt e t s)]\<rparr>)"
  by (simp add: aodvv2_find_route_def aodvv2_seqnum_get_def aodvv2_seqnum_inc_def
      aodvv2_rreqtable_add_def log_event_def Let_def)

text \<open>The public send leaves the sequence-number store and the request table alone.\<close>

lemma send_rreq_frame:
  "seqnum_store (snd (aodvv2_send_rreq e pkt nh s)) = seqnum_store s \<and>
   rreq_seqnums (trace (snd (aodvv2_send_rreq e pkt nh s))) = rreq_seqnums (trace s) \<and>
   count_list (trace (snd (aodvv2_send_rreq e pkt nh s))) SeqnumInc
     = count_list (trace s) SeqnumInc"
  by (simp add: aodvv2_send_rreq_def malloc_def msg_send_def log_event_simps Let_def
      rreq_seqnums_append split: prod.splits)

lemma find_route_step:
  "seqnum_store (snd (aodvv2_find_route e t s)) = seqnum_next e (seqnum_store s) \<and>
   rreq_seqnums (trace (snd (aodvv2_find_route e t s)))
     = rreq_seqnums (trace s) @ [seqnum_store s] \<and>
   count_list (trace (snd (aodvv2_find_route e t s))) SeqnumInc
     = count_list (trace s) SeqnumInc + 1"
  by (simp add: find_route_unfold send_rreq_frame rreq_seqnums_append find_route_pkt_def
      aodvv2_seqnum_get_def)

text \<open>
  C1. As stated the claim fails: the hop limit of a fresh route request is the metric
  module's maximum for the hop count, \<open>METRIC_HOP_COUNT\<close>, whatever the configured
  default metric is. With a default metric of another kind the two bounds differ.
\<close>

theorem find_route_hoplimit_counterexample:
  "hoplimit (find_route_pkt other_metric_env 0x20010db8000000000000000000000002 example_state)
     \<noteq> aodvv2_metric_max other_metric_env (CONFIG_AODVV2_DEFAULT_METRIC other_metric_env)"
  by (simp add: find_route_pkt_def other_metric_env_def example_env_def)

text \<open>
  C1, amended. For every target address, every state and every configuration, the packet
  that \<open>aodvv2_find_route\<close> registers and sends has the metric module's maximum for
  \<open>METRIC_HOP_COUNT\<close> as its hop limit; this is the maximum for the configured default
  metric when the default metric is the hop count.
\<close>

theorem find_route_hoplimit:
  "hoplimit (find_route_pkt e t s) = aodvv2_metric_max e (METRIC_HOP_COUNT e) \<and>
   aodvv2_find_route e t s =
     aodvv2_send_rreq e (find_route_pkt e t s) (ipv6_addr_all_manet_routers_link_local e)
       (s\<lparr>seqnum_store := seqnum_next e (seqnum_store s),
          trace := trace s @ [SeqnumGet, SeqnumInc, RreqtableAdd (find_route_pkt e t s)]\<rparr>) \<and>
   (CONFIG_AODVV2_DEFAULT_METRIC e = METRIC_HOP_COUNT e \<longrightarrow>
      hoplimit (find_route_pkt e t s) = aodvv2_metric_max e (CONFIG_AODVV2_DEFAULT_METRIC e))"
proof -
  have "hoplimit (find_route_pkt e t s) = aodvv2_metric_max e (METRIC_HOP_COUNT e)"
    by (simp add: find_route_pkt_def)
  then show ?thesis
    using find_route_unfold [of e t s] by simp
qed

theorem find_route_hoplimit_witness:
  "CONFIG_AODVV2_DEFAULT_METRIC example_env = METRIC_HOP_COUNT example_env \<and>
   hoplimit (find_route_pkt example_env 0x20010db8000000000000000000000002 example_state)
     = aodvv2_metric_max example_env (CONFIG_AODVV2_DEFAULT_METRIC example_env)"
proof -
  have cfg: "CONFIG_AODVV2_DEFAULT_METRIC example_env = METRIC_HOP_COUNT example_env"
    by (simp add: example_env_def)
  from find_route_hoplimit [of example_env "0x20010db8000000000000000000000002" example_state]
  have "hoplimit (find_route_pkt example_env 0x20010db8000000000000000000000002 example_state)
     = aodvv2_metric_max example_env (CONFIG_AODVV2_DEFAULT_METRIC example_env)"
    using cfg by blast
  with cfg show ?thesis by blast
qed

text \<open>
  C2. The packet built by \<open>aodvv2_find_route\<close> has this node's address, metric 0 and the
  store's current sequence number as its origin, and the converted target address,
  metric 0 and sequence number 0 as its target. The store is incremented exactly once.
  The packet is handed to the request table before the send, the send is given the
  all-routers address as next hop, and the function returns what the send returns.
\<close>

theorem find_route_request:
  "addr (orig_node (find_route_pkt e t s)) = na_netif s \<and>
   metric (orig_node (find_route_pkt e t s)) = 0 \<and>
   seqnum (orig_node (find_route_pkt e t s)) = seqnum_store s \<and>
   addr (targ_node (find_route_pkt e t s)) = ipv6_addr_to_netaddr e t \<and>
   metric (targ_node (find_route_pkt e t s)) = 0 \<and>
   seqnum (targ_node (find_route_pkt e t s)) = 0 \<and>
   aodvv2_find_route e t s =
     aodvv2_send_rreq e (find_route_pkt e t s) (ipv6_addr_all_manet_routers_link_local e)
       (s\<lparr>seqnum_store := seqnum_next e (seqnum_store s),
          trace := trace s @ [SeqnumGet, SeqnumInc, RreqtableAdd (find_route_pkt e t s)]\<rparr>) \<and>
   seqnum_store (snd (aodvv2_find_route e t s)) = seqnum_next e (seqnum_store s) \<and>
   count_list (trace (snd (aodvv2_find_route e t s))) SeqnumInc
     = count_list (trace s) SeqnumInc + 1"
proof -
  have fields:
    "addr (orig_node (find_route_pkt e t s)) = na_netif s"
    "metric (orig_node (find_route_pkt e t s)) = 0"
    "seqnum (orig_node (find_route_pkt e t s)) = seqnum_store s"
    "addr (targ_node (find_route_pkt e t s)) = ipv6_addr_to_netaddr e t"
    "metric (targ_node (find_route_pkt e t s)) = 0"
    "seqnum (targ_node (find_route_pkt e t s)) = 0"
    by (simp_all add: find_route_pkt_def aodvv2_seqnum_get_def)
  show ?thesis
    using fields find_route_unfold [of e t s] find_route_step [of e t s] by blast
qed

text \<open>
  Whatever \<open>msg_send\<close> answers, the block that \<open>aodvv2_send_rreq\<close> got from \<open>malloc\<close> is
  still allocated when the function returns.
\<close>

lemma send_rreq_block_live:
  "\<not> malloc_fails e s \<Longrightarrow>
   heap (snd (aodvv2_send_rreq e pkt nh s)) (heap_next s)
     = Some \<lparr>msg_pkt = pkt, msg_next_hop = nh\<rparr>"
  by (simp add: aodvv2_send_rreq_def malloc_def msg_send_def log_event_simps Let_def
      split: prod.splits)

lemma send_rrep_block_live:
  "\<not> malloc_fails e s \<Longrightarrow>
   heap (snd (aodvv2_send_rrep e pkt nh s)) (heap_next s)
     = Some \<lparr>msg_pkt = pkt, msg_next_hop = nh\<rparr>"
  by (simp add: aodvv2_send_rrep_def malloc_def msg_send_def log_event_simps Let_def
      split: prod.splits)

text \<open>
  C4. With a full inbox both public sends return -1 and put nothing into the inbox, but
  the work item they allocated stays on the heap: the trace has no \<open>free\<close>.
\<close>

theorem send_enqueue_failure_leaks:
  "fst (aodvv2_send_rreq queue_full_env example_pkt 1 example_state) = - 1 \<and>
   heap (snd (aodvv2_send_rreq queue_full_env example_pkt 1 example_state)) 0
     = Some \<lparr>msg_pkt = example_pkt, msg_next_hop = 1\<rparr> \<and>
   msg_queue (snd (aodvv2_send_rreq queue_full_env example_pkt 1 example_state)) = [] \<and>
   trace (snd (aodvv2_send_rreq queue_full_env example_pkt 1 example_state))
     = [Malloc (Some 0),
        MsgSend \<lparr>m_type = AODVV2_MSG_TYPE_SEND_RREQ, m_content = ContentPtr 0\<rparr> 0 0,
        Debug ''aodvv2: couldn't send RREQ.''] \<and>
   fst (aodvv2_send_rrep queue_full_env example_pkt 1 example_state) = - 1 \<and>
   heap (snd (aodvv2_send_rrep queue_full_env example_pkt 1 example_state)) 0
     = Some \<lparr>msg_pkt = example_pkt, msg_next_hop = 1\<rparr> \<and>
   msg_queue (snd (aodvv2_send_rrep queue_full_env example_pkt 1 example_state)) = [] \<and>
   trace (snd (aodvv2_send_rrep queue_full_env example_pkt 1 example_state))
     = [Malloc (Some 0),
        MsgSend \<lparr>m_type = AODVV2_MSG_TYPE_SEND_RREP, m_content = ContentPtr 0\<rparr> 0 0,
        Debug ''aodvv2: couldn't send RREQ.'']"
  by (simp add: aodvv2_send_rreq_def aodvv2_send_rrep_def malloc_def msg_send_def
      log_event_simps Let_def queue_full_env_def example_env_def example_state_def
      KERNEL_PID_UNDEF_def)

subsection \<open>Sequence numbers over several route discoveries\<close>

lemma iter_mono:
  fixes f :: "nat \<Rightarrow> 'a::order"
  assumes "\<forall>k<n. f k < f (Suc k)"
  shows "i < j \<Longrightarrow> j \<le> n \<Longrightarrow> f i < f j"
proof (induction j)
  case 0
  then show ?case by simp
next
  case (Suc j)
  have step: "f j < f (Suc j)" using assms Suc.prems by simp
  show ?case
  proof (cases "i = j")
    case True
    then show ?thesis using step by simp
  next
    case False
    then have "f i < f j" using Suc by simp
    then show ?thesis using step by (rule less_trans)
  qed
qed

lemma find_route_calls_run:
  "seqnum_store (snd (find_route_calls e ts s)) = (seqnum_next e ^^ length ts) (seqnum_store s) \<and>
   rreq_seqnums (trace (snd (find_route_calls e ts s)))
     = rreq_seqnums (trace s) @ map (\<lambda>k. (seqnum_next e ^^ k) (seqnum_store s)) [0..<length ts] \<and>
   count_list (trace (snd (find_route_calls e ts s))) SeqnumInc
     = count_list (trace s) SeqnumInc + length ts"
proof (induction ts arbitrary: s)
  case Nil
  then show ?case by simp
next
  case (Cons t ts)
  let ?s1 = "snd (aodvv2_find_route e t s)"
  have run: "snd (find_route_calls e (t # ts) s) = snd (find_route_calls e ts ?s1)"
    by (simp add: Let_def split: prod.splits)
  have shift: "map (\<lambda>k. (seqnum_next e ^^ k) (seqnum_store s)) [0..<length (t # ts)]
     = seqnum_store s #
       map (\<lambda>k. (seqnum_next e ^^ k) (seqnum_next e (seqnum_store s))) [0..<length ts]"
    by (simp add: upt_conv_Cons map_Suc_upt [symmetric] funpow_swap1 del: upt_Suc)
  show ?case
    unfolding run shift
    using Cons.IH [of ?s1] find_route_step [of e t s]
    by (simp add: funpow_swap1)
qed

lemma queued_seqnums_simps:
  "queued_seqnums [] h = []"
  "queued_seqnums (xs @ ys) h = queued_seqnums xs h @ queued_seqnums ys h"
  "queued_seqnums [\<lparr>m_type = AODVV2_MSG_TYPE_SEND_RREQ, m_content = ContentPtr p\<rparr>] h =
     (case h p of None \<Rightarrow> [] | Some am \<Rightarrow> [seqnum (orig_node (msg_pkt am))])"
  by (simp_all add: queued_seqnums_def List.map_filter_def request_of_def split: option.splits)

text \<open>
  What the public send does to the heap and to the inbox: blocks allocated before stay
  as they are, and the inbox is either unchanged or longer by one message that points
  to a new block holding the packet and the next hop.
\<close>

lemma send_rreq_queue:
  "heap_next s \<le> heap_next (snd (aodvv2_send_rreq e pkt nh s)) \<and>
   (\<forall>q<heap_next s. heap (snd (aodvv2_send_rreq e pkt nh s)) q = heap s q) \<and>
   (msg_queue (snd (aodvv2_send_rreq e pkt nh s)) = msg_queue s \<and> \<not> sends_succeed e \<or>
    msg_queue (snd (aodvv2_send_rreq e pkt nh s))
      = msg_queue s @ [\<lparr>m_type = AODVV2_MSG_TYPE_SEND_RREQ,
                         m_content = ContentPtr (heap_next s)\<rparr>] \<and>
    heap (snd (aodvv2_send_rreq e pkt nh s)) (heap_next s)
      = Some \<lparr>msg_pkt = pkt, msg_next_hop = nh\<rparr> \<and>
    heap_next (snd (aodvv2_send_rreq e pkt nh s)) = Suc (heap_next s))"
  by (auto simp: aodvv2_send_rreq_def malloc_def msg_send_def log_event_simps Let_def
      sends_succeed_def not_le split: prod.splits)

lemma find_route_queue:
  "heap_next s \<le> heap_next (snd (aodvv2_find_route e t s)) \<and>
   (\<forall>q<heap_next s. heap (snd (aodvv2_find_route e t s)) q = heap s q) \<and>
   (msg_queue (snd (aodvv2_find_route e t s)) = msg_queue s \<and> \<not> sends_succeed e \<or>
    msg_queue (snd (aodvv2_find_route e t s))
      = msg_queue s @ [\<lparr>m_type = AODVV2_MSG_TYPE_SEND_RREQ,
                         m_content = ContentPtr (heap_next s)\<rparr>] \<and>
    heap (snd (aodvv2_find_route e t s)) (heap_next s)
      = Some \<lparr>msg_pkt = find_route_pkt e t s,
              msg_next_hop = ipv6_addr_all_manet_routers_link_local e\<rparr> \<and>
    heap_next (snd (aodvv2_find_route e t s)) = Suc (heap_next s))"
  using send_rreq_queue [of
      "s\<lparr>seqnum_store := seqnum_next e (seqnum_store s),
         trace := trace s @ [SeqnumGet, SeqnumInc, RreqtableAdd (find_route_pkt e t s)]\<rparr>"
      e "find_route_pkt e t s" "ipv6_addr_all_manet_routers_link_local e"]
  by (simp add: find_route_unfold)

lemma find_route_calls_queue:
  "heap_next s \<le> heap_next (snd (find_route_calls e ts s)) \<and>
   (\<forall>q<heap_next s. heap (snd (find_route_calls e ts s)) q = heap s q) \<and>
   (\<exists>new. msg_queue (snd (find_route_calls e ts s)) = msg_queue s @ new \<and>
      subseq (queued_seqnums new (heap (snd (find_route_calls e ts s))))
        (map (\<lambda>k. (seqnum_next e ^^ k) (seqnum_store s)) [0..<length ts]) \<and>
      (sends_succeed e \<longrightarrow>
         queued_seqnums new (heap (snd (find_route_calls e ts s)))
           = map (\<lambda>k. (seqnum_next e ^^ k) (seqnum_store s)) [0..<length ts]))"
proof (induction ts arbitrary: s)
  case Nil
  then show ?case by (simp add: queued_seqnums_simps)
next
  case (Cons t ts)
  let ?s1 = "snd (aodvv2_find_route e t s)"
  let ?s' = "snd (find_route_calls e ts ?s1)"
  let ?f1 = "\<lambda>k. (seqnum_next e ^^ k) (seqnum_store ?s1)"
  have run: "snd (find_route_calls e (t # ts) s) = ?s'"
    by (simp add: Let_def split: prod.splits)
  have st1: "seqnum_store ?s1 = seqnum_next e (seqnum_store s)"
    using find_route_step [of e t s] by simp
  have shift: "map (\<lambda>k. (seqnum_next e ^^ k) (seqnum_store s)) [0..<length (t # ts)]
     = seqnum_store s # map ?f1 [0..<length ts]"
    unfolding st1
    by (simp add: upt_conv_Cons map_Suc_upt [symmetric] funpow_swap1 del: upt_Suc)
  from Cons.IH [of ?s1] obtain new1 where ih:
    "heap_next ?s1 \<le> heap_next ?s'"
    "\<forall>q<heap_next ?s1. heap ?s' q = heap ?s1 q"
    "msg_queue ?s' = msg_queue ?s1 @ new1"
    "subseq (queued_seqnums new1 (heap ?s')) (map ?f1 [0..<length ts])"
    "sends_succeed e \<longrightarrow> queued_seqnums new1 (heap ?s') = map ?f1 [0..<length ts]"
    by blast
  note step = find_route_queue [of s e t]
  have mono: "heap_next s \<le> heap_next ?s'"
    using step ih(1) by linarith
  have keep: "\<forall>q<heap_next s. heap ?s' q = heap s q"
    using step ih(2) by (metis less_le_trans)
  from step consider
      (same) "msg_queue ?s1 = msg_queue s" "\<not> sends_succeed e"
    | (more) "msg_queue ?s1 = msg_queue s @ [\<lparr>m_type = AODVV2_MSG_TYPE_SEND_RREQ,
                         m_content = ContentPtr (heap_next s)\<rparr>]"
        "heap ?s1 (heap_next s) = Some \<lparr>msg_pkt = find_route_pkt e t s,
              msg_next_hop = ipv6_addr_all_manet_routers_link_local e\<rparr>"
        "heap_next ?s1 = Suc (heap_next s)"
    by blast
  then have "\<exists>new. msg_queue ?s' = msg_queue s @ new \<and>
      subseq (queued_seqnums new (heap ?s')) (seqnum_store s # map ?f1 [0..<length ts]) \<and>
      (sends_succeed e \<longrightarrow>
         queued_seqnums new (heap ?s') = seqnum_store s # map ?f1 [0..<length ts])"
  proof cases
    case same
    then show ?thesis using ih(3) ih(4) by auto
  next
    case more
    let ?m0 = "\<lparr>m_type = AODVV2_MSG_TYPE_SEND_RREQ, m_content = ContentPtr (heap_next s)\<rparr>"
    have blk: "heap ?s' (heap_next s) = Some \<lparr>msg_pkt = find_route_pkt e t s,
              msg_next_hop = ipv6_addr_all_manet_routers_link_local e\<rparr>"
      using ih(2) more(2) more(3) by simp
    have sq: "seqnum (orig_node (find_route_pkt e t s)) = seqnum_store s"
      by (simp add: find_route_pkt_def aodvv2_seqnum_get_def)
    have q0: "queued_seqnums (?m0 # new1) (heap ?s')
        = seqnum_store s # queued_seqnums new1 (heap ?s')"
      using queued_seqnums_simps(2) [of "[?m0]" new1 "heap ?s'"]
      by (simp add: queued_seqnums_simps(3) blk sq)
    have "msg_queue ?s' = msg_queue s @ (?m0 # new1)"
      using ih(3) more(1) by simp
    then show ?thesis
      using q0 ih(4) ih(5) by (metis subseq_Cons2)
  qed
  then show ?case
    unfolding run shift using mono keep by blast
qed

lemma strict_sorted_subseq:
  fixes ys :: "'a::linorder list"
  shows "subseq xs ys \<Longrightarrow> sorted_wrt (<) ys \<Longrightarrow> sorted_wrt (<) xs \<and> distinct xs"
proof (induction xs ys rule: list_emb.induct)
  case (list_emb_Nil ys)
  then show ?case by simp
next
  case (list_emb_Cons xs ys y)
  then show ?case by simp
next
  case (list_emb_Cons2 x y xs ys)
  have "z \<in> set ys" if "z \<in> set xs" for z
    using list_emb_set [OF list_emb_Cons2.hyps(2) that] by metis
  then show ?case using list_emb_Cons2 by auto
qed

text \<open>
  C8. Take any number of calls of \<open>aodvv2_find_route\<close>, one after the other, and let the
  values that the sequence-number store issues during the run be strictly increasing.
  Each call hands to \<open>aodvv2_send_rreq\<close> a packet whose origin carries the value the
  store held when the call began, and increments the store once. The sequence numbers
  of the requests handed to the request table are those values in turn. The requests
  that the run puts into the inbox of the engine thread, read from the work items on
  the heap, carry a subsequence of them, and all of them when no \<open>malloc\<close> and no
  \<open>msg_send\<close> fails. Both lists are strictly increasing and pairwise distinct.
\<close>

theorem find_route_seqnums_increasing:
  assumes inc: "\<forall>k<length ts.
      (seqnum_next e ^^ k) (seqnum_store s) < (seqnum_next e ^^ Suc k) (seqnum_store s)"
  shows "rreq_seqnums (trace (snd (find_route_calls e ts s)))
           = rreq_seqnums (trace s)
             @ map (\<lambda>k. (seqnum_next e ^^ k) (seqnum_store s)) [0..<length ts] \<and>
         sorted_wrt (<) (map (\<lambda>k. (seqnum_next e ^^ k) (seqnum_store s)) [0..<length ts]) \<and>
         distinct (map (\<lambda>k. (seqnum_next e ^^ k) (seqnum_store s)) [0..<length ts]) \<and>
         count_list (trace (snd (find_route_calls e ts s))) SeqnumInc
           = count_list (trace s) SeqnumInc + length ts \<and>
         count_list (trace (snd (aodvv2_find_route e t' s'))) SeqnumInc
           = count_list (trace s') SeqnumInc + 1 \<and>
         aodvv2_find_route e t' s' =
           aodvv2_send_rreq e (find_route_pkt e t' s') (ipv6_addr_all_manet_routers_link_local e)
             (s'\<lparr>seqnum_store := seqnum_next e (seqnum_store s'),
                 trace := trace s' @ [SeqnumGet, SeqnumInc,
                                      RreqtableAdd (find_route_pkt e t' s')]\<rparr>) \<and>
         seqnum (orig_node (find_route_pkt e t' s')) = seqnum_store s' \<and>
         (\<exists>new. msg_queue (snd (find_route_calls e ts s)) = msg_queue s @ new \<and>
            subseq (queued_seqnums new (heap (snd (find_route_calls e ts s))))
              (map (\<lambda>k. (seqnum_next e ^^ k) (seqnum_store s)) [0..<length ts]) \<and>
            sorted_wrt (<) (queued_seqnums new (heap (snd (find_route_calls e ts s)))) \<and>
            distinct (queued_seqnums new (heap (snd (find_route_calls e ts s)))) \<and>
            (sends_succeed e \<longrightarrow>
               queued_seqnums new (heap (snd (find_route_calls e ts s)))
                 = map (\<lambda>k. (seqnum_next e ^^ k) (seqnum_store s)) [0..<length ts]))"
proof -
  let ?f = "\<lambda>k. (seqnum_next e ^^ k) (seqnum_store s)"
  let ?s' = "snd (find_route_calls e ts s)"
  have mono: "?f i < ?f j" if "i < j" "j \<le> length ts" for i j
    using iter_mono [of "length ts" ?f i j] inc that by simp
  have srt: "sorted_wrt (<) (map ?f [0..<length ts])"
    by (simp add: sorted_wrt_iff_nth_less mono)
  then have dst: "distinct (map ?f [0..<length ts])"
    using strict_sorted_iff by blast
  have sq: "seqnum (orig_node (find_route_pkt e t' s')) = seqnum_store s'"
    by (simp add: find_route_pkt_def aodvv2_seqnum_get_def)
  obtain new where q: "msg_queue ?s' = msg_queue s @ new"
      "subseq (queued_seqnums new (heap ?s')) (map ?f [0..<length ts])"
      "sends_succeed e \<longrightarrow> queued_seqnums new (heap ?s') = map ?f [0..<length ts]"
    using find_route_calls_queue [of s e ts] by blast
  have qs: "sorted_wrt (<) (queued_seqnums new (heap ?s')) \<and>
            distinct (queued_seqnums new (heap ?s'))"
    using strict_sorted_subseq [OF q(2) srt] .
  have queue: "\<exists>new. msg_queue ?s' = msg_queue s @ new \<and>
            subseq (queued_seqnums new (heap ?s')) (map ?f [0..<length ts]) \<and>
            sorted_wrt (<) (queued_seqnums new (heap ?s')) \<and>
            distinct (queued_seqnums new (heap ?s')) \<and>
            (sends_succeed e \<longrightarrow> queued_seqnums new (heap ?s') = map ?f [0..<length ts])"
    using q qs by blast
  have run: "rreq_seqnums (trace ?s') = rreq_seqnums (trace s) @ map ?f [0..<length ts]"
      "count_list (trace ?s') SeqnumInc = count_list (trace s) SeqnumInc + length ts"
    using find_route_calls_run [of e ts s] by simp_all
  have one: "count_list (trace (snd (aodvv2_find_route e t' s'))) SeqnumInc
           = count_list (trace s') SeqnumInc + 1"
    using find_route_step [of e t' s'] by simp
  show ?thesis
    by (intro conjI) (rule run srt dst one find_route_unfold sq queue)+
qed

theorem find_route_seqnums_increasing_witness:
  "rreq_seqnums (trace (snd (find_route_calls example_env [1, 2, 3]
      (example_state\<lparr>seqnum_store := 5\<rparr>)))) = [5, 6, 7] \<and>
   count_list (trace (snd (find_route_calls example_env [1, 2, 3]
      (example_state\<lparr>seqnum_store := 5\<rparr>)))) SeqnumInc = 3 \<and>
   queued_seqnums
      (msg_queue (snd (find_route_calls example_env [1, 2, 3]
         (example_state\<lparr>seqnum_store := 5\<rparr>))))
      (heap (snd (find_route_calls example_env [1, 2, 3]
         (example_state\<lparr>seqnum_store := 5\<rparr>)))) = [5, 6, 7]"
proof -
  let ?s = "example_state\<lparr>seqnum_store := 5\<rparr>"
  let ?s' = "snd (find_route_calls example_env [1, 2, 3] ?s)"
  have sq: "seqnum_store ?s = 5" by simp
  have len: "length [1, 2, 3 :: ipv6_addr_t] = 3" by simp
  have inc: "\<forall>k<length [1, 2, 3 :: ipv6_addr_t].
      (seqnum_next example_env ^^ k) (seqnum_store ?s)
        < (seqnum_next example_env ^^ Suc k) (seqnum_store ?s)"
    unfolding sq len by (simp add: example_env_def less_Suc_eq numeral_3_eq_3)
  have tr: "trace ?s = []"
    by (simp add: example_state_def)
  have qu: "msg_queue ?s = []"
    by (simp add: example_state_def)
  have ok: "sends_succeed example_env"
    by (simp add: sends_succeed_def example_env_def)
  have vals: "map (\<lambda>k. (seqnum_next example_env ^^ k) (5 :: 16 word)) [0..<3] = [5, 6, 7]"
    by (simp add: example_env_def upt_rec numeral_3_eq_3)
  note th = find_route_seqnums_increasing [OF inc, of 0 example_state]
  from th have "rreq_seqnums (trace ?s')
      = rreq_seqnums (trace ?s)
        @ map (\<lambda>k. (seqnum_next example_env ^^ k) (seqnum_store ?s))
            [0..<length [1, 2, 3 :: ipv6_addr_t]]"
    by (rule conjunct1)
  then have a: "rreq_seqnums (trace ?s') = [5, 6, 7]"
    unfolding sq len tr vals by simp
  from th have "count_list (trace ?s') SeqnumInc
      = count_list (trace ?s) SeqnumInc + length [1, 2, 3 :: ipv6_addr_t]"
    by blast
  then have b: "count_list (trace ?s') SeqnumInc = 3"
    unfolding len tr by simp
  from th obtain new where n: "msg_queue ?s' = msg_queue ?s @ new"
      "sends_succeed example_env \<longrightarrow>
         queued_seqnums new (heap ?s')
           = map (\<lambda>k. (seqnum_next example_env ^^ k) (seqnum_store ?s))
               [0..<length [1, 2, 3 :: ipv6_addr_t]]"
    by blast
  from n(1) have "new = msg_queue ?s'" unfolding qu by simp
  with n(2) ok have c: "queued_seqnums (msg_queue ?s') (heap ?s') = [5, 6, 7]"
    unfolding sq len vals by simp
  from a b c show ?thesis by blast
qed

subsection \<open>Initialisation\<close>

lemma init_bindings_pid: "pid (init_bindings e a s) = pid s"
  by (simp add: init_bindings_def log_event_simps Let_def)

text \<open>
  C5. After a call of \<open>aodvv2_init\<close> that returned a thread id, a further call, with any
  interface and whatever the environment would answer, returns the same id and leaves
  the whole state as it is, the trace included: no thread is created and nothing is
  initialised or registered again.
\<close>

theorem init_idempotent:
  assumes "aodvv2_init e (Some i) s = Inr (r, s')" and "KERNEL_PID_UNDEF < r"
  shows "pid s' = r \<and> aodvv2_init e' (Some i') s' = Inr (r, s')"
proof -
  have p: "pid s' = r"
    using assms
    by (auto simp: aodvv2_init_def Let_def log_event_simps init_bindings_pid
        KERNEL_PID_UNDEF_def split: if_splits prod.splits)
  then have "pid s' \<noteq> KERNEL_PID_UNDEF" using assms(2) by simp
  then show ?thesis using p by (simp add: aodvv2_init_def)
qed

theorem init_idempotent_witness:
  "\<exists>s'. aodvv2_init example_env (Some 1) example_state = Inr (7, s') \<and>
        aodvv2_init thread_fail_env (Some 2) s' = Inr (7, s')"
proof -
  obtain s' where first: "aodvv2_init example_env (Some 1) example_state = Inr (7, s')"
    by (simp add: aodvv2_init_def example_env_def example_state_def Let_def log_event_simps
        init_bindings_pid)
  have ok: "KERNEL_PID_UNDEF < (7 :: int)" by (simp add: KERNEL_PID_UNDEF_def)
  from init_idempotent [OF first ok, of thread_fail_env 2] first show ?thesis by blast
qed

text \<open>
  C10. When \<open>thread_create\<close> fails in \<open>aodvv2_init\<close>, the function returns the negative
  error code and leaves it in \<open>_pid\<close>, having done nothing but initialise the two
  mutexes. As long as \<open>_pid\<close> holds that value, every further call returns it at once and
  changes nothing: the engine is never initialised.
\<close>

theorem init_thread_failure_permanent:
  assumes "pid s = KERNEL_PID_UNDEF"
    and "thread_create_result e
           (log_event (MutexInit READER_LOCK) (log_event (MutexInit WRITER_LOCK) s)) = p"
    and "p < 0"
  shows "aodvv2_init e (Some i) s =
           Inr (p, log_event (ThreadCreate p)
                     ((log_event (MutexInit READER_LOCK)
                         (log_event (MutexInit WRITER_LOCK) s))\<lparr>pid := p\<rparr>)) \<and>
         (pid s'' = p \<longrightarrow> aodvv2_init e' (Some i') s'' = Inr (p, s''))"
  using assms by (simp add: aodvv2_init_def Let_def log_event_simps KERNEL_PID_UNDEF_def)

theorem init_thread_failure_permanent_witness:
  "aodvv2_init thread_fail_env (Some 1) example_state =
     Inr (- 22, example_state\<lparr>pid := - 22,
            trace := [MutexInit WRITER_LOCK, MutexInit READER_LOCK, ThreadCreate (- 22)]\<rparr>) \<and>
   aodvv2_init example_env (Some 2)
      (example_state\<lparr>pid := - 22,
            trace := [MutexInit WRITER_LOCK, MutexInit READER_LOCK, ThreadCreate (- 22)]\<rparr>) =
     Inr (- 22, example_state\<lparr>pid := - 22,
            trace := [MutexInit WRITER_LOCK, MutexInit READER_LOCK, ThreadCreate (- 22)]\<rparr>)"
proof -
  have a: "pid example_state = KERNEL_PID_UNDEF" by (simp add: example_state_def)
  have b: "thread_create_result thread_fail_env
           (log_event (MutexInit READER_LOCK) (log_event (MutexInit WRITER_LOCK) example_state))
             = - 22"
    by (simp add: thread_fail_env_def example_env_def)
  have c: "(- 22 :: int) < 0" by simp
  have st: "log_event (ThreadCreate (- 22))
                     ((log_event (MutexInit READER_LOCK)
                         (log_event (MutexInit WRITER_LOCK) example_state))\<lparr>pid := - 22\<rparr>)
     = example_state\<lparr>pid := - 22,
            trace := [MutexInit WRITER_LOCK, MutexInit READER_LOCK, ThreadCreate (- 22)]\<rparr>"
    by (simp add: log_event_def example_state_def)
  have d: "pid (example_state\<lparr>pid := - 22,
            trace := [MutexInit WRITER_LOCK, MutexInit READER_LOCK, ThreadCreate (- 22)]\<rparr>) = - 22"
    by simp
  from init_thread_failure_permanent [OF a b c, of 1 _ example_env 2] d
  show ?thesis unfolding st by blast
qed

subsection \<open>The transmission sink\<close>

text \<open>
  Whenever \<open>_send_packet\<close> returns, it has either handed the packet to the transport or
  released every snip it allocated: the packet buffer is as it was before the call.
\<close>

lemma send_packet_clean_return:
  assumes "send_packet e (Some buf) s = Inr s'" and "pktbuf_fresh s"
  shows "pktbuf s' = pktbuf s \<or> (\<exists>pkt r. last (trace s') = DispatchSend pkt r \<and> 1 \<le> r)"
proof -
  have f: "pktbuf s k = None" if "pktbuf_next s \<le> k" for k
    using assms(2) that by (simp add: pktbuf_fresh_def)
  show ?thesis
    using assms(1) f
    by (auto simp: send_packet_def Let_def gnrc_pktbuf_add_def gnrc_udp_hdr_build_def
        gnrc_ipv6_hdr_build_def gnrc_netif_hdr_build_def gnrc_netif_hdr_set_netif_def
        gnrc_netapi_dispatch_send_def gnrc_pktbuf_release_def log_event_def fun_eq_iff
        split: if_splits)
qed

text \<open>
  C3. The stage of the network-interface header does not do what the claim says. When
  the packet buffer has room for the payload, the UDP header and the IPv6 header but not
  for the network-interface header, \<open>gnrc_netif_hdr_build\<close> returns the null pointer,
  which \<open>_send_packet\<close> dereferences without a check: the function does not return, and
  the three snips allocated before are never released.
\<close>

theorem send_packet_netif_hdr_failure:
  "\<exists>s'. send_packet small_pktbuf_env (Some [1, 2, 3]) example_state = Inl (NullDereference, s') \<and>
     pktbuf s' 0 \<noteq> None \<and> pktbuf s' 1 \<noteq> None \<and> pktbuf s' 2 \<noteq> None \<and>
     trace s' = [DebugHexdump (Some (RawBytes [1, 2, 3])), PktbufAdd (Some 0),
                 PktbufAdd (Some 1), PktbufAdd (Some 2), PktbufAdd None]"
  by (simp add: send_packet_def small_pktbuf_env_def example_env_def example_state_def
      Let_def gnrc_pktbuf_add_def gnrc_udp_hdr_build_def gnrc_ipv6_hdr_build_def
      gnrc_netif_hdr_build_def log_event_def)

subsection \<open>The writer context\<close>

text \<open>Neither the sink nor the packet buffer writes the writer context.\<close>

lemma pktbuf_add_writer_context:
  "writer_context (snd (gnrc_pktbuf_add e nxt d sz ty s)) = writer_context s"
  by (simp add: gnrc_pktbuf_add_def log_event_simps)

lemma pktbuf_release_writer_context:
  "writer_context (gnrc_pktbuf_release p s) = writer_context s"
  by (simp add: gnrc_pktbuf_release_def log_event_simps)

lemma netif_hdr_set_netif_writer_context:
  "writer_context (gnrc_netif_hdr_set_netif n i s) = writer_context s"
  by (simp add: gnrc_netif_hdr_set_netif_def split: option.splits)

lemma dispatch_send_writer_context:
  "writer_context (snd (gnrc_netapi_dispatch_send e p s)) = writer_context s"
  by (simp add: gnrc_netapi_dispatch_send_def log_event_simps)

lemma send_packet_writer_context:
  assumes "send_packet e b s = Inr s'"
  shows "writer_context s' = writer_context s"
proof -
  have add: "writer_context s1 = writer_context s0"
    if "gnrc_pktbuf_add e nxt d sz ty s0 = (p, s1)" for nxt d sz ty s0 p s1
    using pktbuf_add_writer_context [of e nxt d sz ty s0] that by simp
  have disp: "writer_context s1 = writer_context s0"
    if "gnrc_netapi_dispatch_send e q s0 = (r, s1)" for q s0 r s1
    using dispatch_send_writer_context [of e q s0] that by simp
  show ?thesis
    using assms
    by (auto simp: send_packet_def Let_def gnrc_udp_hdr_build_def gnrc_ipv6_hdr_build_def
        gnrc_netif_hdr_build_def pktbuf_release_writer_context log_event_simps
        netif_hdr_set_netif_writer_context
        split: option.splits if_splits prod.splits list.splits dest!: add disp)
qed

lemma send_packets_writer_context:
  "send_packets e bs s = Inr s' \<Longrightarrow> writer_context s' = writer_context s"
proof (induction bs arbitrary: s)
  case Nil
  then show ?case by simp
next
  case (Cons b bs)
  then show ?case
    by (auto split: sum.splits dest: send_packet_writer_context)
qed

text \<open>
  With room in the packet buffer and no empty buffer from the codec, the sink returns
  for every encoded message, and so do the flush, \<open>_send_rreq\<close> and \<open>_send_rrep\<close>.
\<close>

lemma send_packet_returns:
  assumes "\<forall>st. \<not> pktbuf_full e st" and "b \<noteq> []"
  shows "\<exists>s'. send_packet e (Some b) s = Inr s'"
  using assms
  by (simp add: send_packet_def Let_def gnrc_pktbuf_add_def gnrc_udp_hdr_build_def
      gnrc_ipv6_hdr_build_def gnrc_netif_hdr_build_def gnrc_netapi_dispatch_send_def
      split: prod.splits)

lemma send_packets_returns:
  assumes "\<forall>st. \<not> pktbuf_full e st"
  shows "[] \<notin> set bs \<Longrightarrow> \<exists>s'. send_packets e bs s = Inr s'"
proof (induction bs arbitrary: s)
  case Nil
  then show ?case by simp
next
  case (Cons b bs)
  then have "b \<noteq> []" by auto
  then obtain s1 where "send_packet e (Some b) s = Inr s1"
    using send_packet_returns [OF assms] by blast
  moreover obtain s2 where "send_packets e bs s1 = Inr s2"
    using Cons by fastforce
  ultimately show ?case by simp
qed

lemma flush_returns:
  assumes "\<forall>st. \<not> pktbuf_full e st" and "\<forall>ctx. [] \<notin> set (writer_output e ctx)"
  shows "\<exists>s'. rfc5444_writer_flush e s = Inr s'"
  unfolding rfc5444_writer_flush_def
  using send_packets_returns [OF assms(1)] assms(2) by blast

lemma result_case_returns:
  "\<exists>s'. x = Inr s' \<Longrightarrow>
   \<exists>s'. (case x of Inl f \<Rightarrow> Inl f | Inr s7 \<Rightarrow> Inr (g s7)) = Inr s'"
  by auto

lemma send_rreq_returns:
  assumes "\<forall>st. \<not> pktbuf_full e st" and "\<forall>ctx. [] \<notin> set (writer_output e ctx)"
  shows "\<exists>s'. send_rreq e (Some pd) (Some nh) s = Inr s'"
  unfolding send_rreq_def Let_def
  by (simp, rule result_case_returns, rule flush_returns [OF assms])

lemma send_rrep_returns:
  assumes "\<forall>st. \<not> pktbuf_full e st" and "\<forall>ctx. [] \<notin> set (writer_output e ctx)"
  shows "\<exists>s'. send_rrep e (Some pd) (Some nh) s = Inr s'"
  unfolding send_rrep_def Let_def
  by (simp, rule result_case_returns, rule flush_returns [OF assms])

text \<open>
  C9. When \<open>_send_rreq\<close> returns, the writer context holds the payload it was given,
  the message type RREQ and the next hop as the destination; likewise \<open>_send_rrep\<close>
  with the type RREP. With a null payload or a null next hop both functions end in a
  failed assertion, in the state they were called in. Both functions do return, with
  the context so bound, whenever the packet buffer has room and the codec hands no
  empty buffer to the sink.
\<close>

theorem send_binds_writer_context:
  "(send_rreq e (Some pd) (Some nh) s = Inr s' \<longrightarrow>
      writer_context s' =
        \<lparr>wt_target_addr = nh, wt_packet_data = pd, wt_type = Some RFC5444_MSGTYPE_RREQ\<rparr>) \<and>
   (send_rrep e (Some pd) (Some nh) s = Inr s' \<longrightarrow>
      writer_context s' =
        \<lparr>wt_target_addr = nh, wt_packet_data = pd, wt_type = Some RFC5444_MSGTYPE_RREP\<rparr>) \<and>
   send_rreq e None next_hop s = Inl (AssertionFailed, s) \<and>
   send_rreq e packet_data None s = Inl (AssertionFailed, s) \<and>
   send_rrep e None next_hop s = Inl (AssertionFailed, s) \<and>
   send_rrep e packet_data None s = Inl (AssertionFailed, s) \<and>
   ((\<forall>st. \<not> pktbuf_full e st) \<and> (\<forall>ctx. [] \<notin> set (writer_output e ctx)) \<longrightarrow>
      (\<exists>s1. send_rreq e (Some pd) (Some nh) s = Inr s1 \<and>
         writer_context s1 =
           \<lparr>wt_target_addr = nh, wt_packet_data = pd, wt_type = Some RFC5444_MSGTYPE_RREQ\<rparr>) \<and>
      (\<exists>s2. send_rrep e (Some pd) (Some nh) s = Inr s2 \<and>
         writer_context s2 =
           \<lparr>wt_target_addr = nh, wt_packet_data = pd, wt_type = Some RFC5444_MSGTYPE_RREP\<rparr>))"
proof -
  have flush: "writer_context s1 = writer_context s0"
    if "rfc5444_writer_flush e s0 = Inr s1" for s0 s1
    using that send_packets_writer_context
    by (fastforce simp: rfc5444_writer_flush_def log_event_simps)
  have rreq: "writer_context s' =
        \<lparr>wt_target_addr = nh, wt_packet_data = pd, wt_type = Some RFC5444_MSGTYPE_RREQ\<rparr>"
    if "send_rreq e (Some pd) (Some nh) s = Inr s'" for s'
    using that
    by (auto simp: send_rreq_def Let_def log_event_simps
        rfc5444_writer_create_message_alltarget_def split: sum.splits dest!: flush)
  have rrep: "writer_context s' =
        \<lparr>wt_target_addr = nh, wt_packet_data = pd, wt_type = Some RFC5444_MSGTYPE_RREP\<rparr>"
    if "send_rrep e (Some pd) (Some nh) s = Inr s'" for s'
    using that
    by (auto simp: send_rrep_def Let_def log_event_simps
        rfc5444_writer_create_message_alltarget_def split: sum.splits dest!: flush)
  have nulls:
    "send_rreq e None next_hop s = Inl (AssertionFailed, s)"
    "send_rreq e packet_data None s = Inl (AssertionFailed, s)"
    "send_rrep e None next_hop s = Inl (AssertionFailed, s)"
    "send_rrep e packet_data None s = Inl (AssertionFailed, s)"
    by (simp_all add: send_rreq_def send_rrep_def split: option.splits)
  have done_rreq: "\<exists>s1. send_rreq e (Some pd) (Some nh) s = Inr s1 \<and>
         writer_context s1 =
           \<lparr>wt_target_addr = nh, wt_packet_data = pd, wt_type = Some RFC5444_MSGTYPE_RREQ\<rparr>"
    if "\<forall>st. \<not> pktbuf_full e st" "\<forall>ctx. [] \<notin> set (writer_output e ctx)"
    using send_rreq_returns [OF that, of pd nh s] rreq by blast
  have done_rrep: "\<exists>s2. send_rrep e (Some pd) (Some nh) s = Inr s2 \<and>
         writer_context s2 =
           \<lparr>wt_target_addr = nh, wt_packet_data = pd, wt_type = Some RFC5444_MSGTYPE_RREP\<rparr>"
    if "\<forall>st. \<not> pktbuf_full e st" "\<forall>ctx. [] \<notin> set (writer_output e ctx)"
    using send_rrep_returns [OF that, of pd nh s] rrep by blast
  show ?thesis using rreq rrep nulls done_rreq done_rrep by blast
qed

theorem send_binds_writer_context_witness:
  "(\<exists>s'. send_rreq example_env (Some example_pkt) (Some 1) example_state = Inr s' \<and>
     writer_context s' =
        \<lparr>wt_target_addr = 1, wt_packet_data = example_pkt,
         wt_type = Some RFC5444_MSGTYPE_RREQ\<rparr>) \<and>
   (\<exists>s'. send_rrep example_env (Some example_pkt) (Some 1) example_state = Inr s' \<and>
     writer_context s' =
        \<lparr>wt_target_addr = 1, wt_packet_data = example_pkt,
         wt_type = Some RFC5444_MSGTYPE_RREP\<rparr>)"
proof -
  have room: "\<forall>st. \<not> pktbuf_full example_env st"
    by (simp add: example_env_def)
  have out: "\<forall>ctx. [] \<notin> set (writer_output example_env ctx)"
    by (simp add: example_env_def)
  from send_binds_writer_context [of example_env example_pkt 1 example_state] room out
  show ?thesis by blast
qed

subsection \<open>The reception pipeline\<close>

text \<open>
  C6. As stated the claim fails: a packet that is not null and has a payload of three
  bytes, but no IPv6 header in its chain, makes \<open>_receive\<close> end in the failed assertion
  of line 216. The function does not return and the packet is not released.
\<close>

theorem receive_without_ipv6_header_counterexample:
  "receive example_env [0] headerless_state =
     Inl (AssertionFailed, log_event (DebugHexdump (Some (RawBytes [1, 2, 3]))) headerless_state) \<and>
   pktbuf (log_event (DebugHexdump (Some (RawBytes [1, 2, 3]))) headerless_state) 0 \<noteq> None \<and>
   trace (log_event (DebugHexdump (Some (RawBytes [1, 2, 3]))) headerless_state)
     = [DebugHexdump (Some (RawBytes [1, 2, 3]))]"
  by (simp add: receive_def headerless_state_def example_state_def log_event_def Let_def)

text \<open>
  C6, amended. For every packet whose first snip has data and a size above zero and
  whose chain has an IPv6 header, \<open>_receive\<close> returns, whatever the codec's reader
  answers. It has then released the packet exactly once, as its last call; a failed
  parse is logged before that and is not passed on to the caller.
\<close>

theorem receive_releases_once:
  assumes "pktbuf s n = Some sn" and "snip_data sn \<noteq> None" and "0 < snip_size sn"
    and "gnrc_ipv6_get_header (pktbuf s) (n # ns) = Some (src, dst)"
    and "res = reader_handle_packet_result e
                 (log_event (HandlePacketPrepare src)
                    (log_event (MutexLock READER_LOCK)
                       (log_event (DebugHexdump (snip_data sn)) s)))"
  shows "\<exists>s'. receive e (n # ns) s = Inr s' \<and>
           pktbuf s' = release_snips (n # ns) (pktbuf s) \<and>
           trace s' = trace s
             @ [DebugHexdump (snip_data sn), MutexLock READER_LOCK, HandlePacketPrepare src,
                ReaderHandlePacket (snip_data sn) (snip_size sn) res]
             @ (if res \<noteq> RFC5444_OKAY then [Debug ''aodvv2: couldn't handle packet!''] else [])
             @ [MutexUnlock READER_LOCK, PktbufRelease (n # ns)] \<and>
           count_list (trace s') (PktbufRelease (n # ns))
             = count_list (trace s) (PktbufRelease (n # ns)) + 1"
  using assms
  by (simp add: receive_def Let_def log_event_simps rfc5444_reader_handle_packet_def
      gnrc_pktbuf_release_def del: gnrc_ipv6_get_header.simps release_snips.simps)

theorem receive_releases_once_witness:
  "(\<exists>s'. receive example_env [0, 1, 2] received_state = Inr s' \<and>
      pktbuf s' = Map.empty \<and>
      trace s' = [DebugHexdump (Some (RawBytes [1, 2, 3])), MutexLock READER_LOCK,
                  HandlePacketPrepare 0x20010db8000000000000000000000002,
                  ReaderHandlePacket (Some (RawBytes [1, 2, 3])) 3 RFC5444_OKAY,
                  MutexUnlock READER_LOCK, PktbufRelease [0, 1, 2]]) \<and>
   (\<exists>s'. receive parse_fail_env [0, 1, 2] received_state = Inr s' \<and>
      pktbuf s' = Map.empty \<and>
      trace s' = [DebugHexdump (Some (RawBytes [1, 2, 3])), MutexLock READER_LOCK,
                  HandlePacketPrepare 0x20010db8000000000000000000000002,
                  ReaderHandlePacket (Some (RawBytes [1, 2, 3])) 3 (RFC5444_ERROR 1),
                  Debug ''aodvv2: couldn't handle packet!'',
                  MutexUnlock READER_LOCK, PktbufRelease [0, 1, 2]])"
proof -
  let ?sn = "\<lparr>snip_data = Some (RawBytes [1, 2, 3]), snip_size = 3,
              snip_type = GNRC_NETTYPE_UNDEF, snip_users = 1\<rparr>"
  have a: "pktbuf received_state 0 = Some ?sn"
    by (simp add: received_state_def)
  have b: "snip_data ?sn \<noteq> None" by simp
  have c: "0 < snip_size ?sn" by simp
  have d: "gnrc_ipv6_get_header (pktbuf received_state) [0, 1, 2]
             = Some (0x20010db8000000000000000000000002, 0xff02000000000000000000000000006d)"
    by (simp add: received_state_def)
  have ok: "RFC5444_OKAY = reader_handle_packet_result example_env st" for st
    by (simp add: example_env_def)
  have bad: "RFC5444_ERROR 1 = reader_handle_packet_result parse_fail_env st" for st
    by (simp add: parse_fail_env_def)
  have rel: "release_snips [0, 1, 2] (pktbuf received_state) = Map.empty"
    by (simp add: received_state_def)
  have tr: "trace received_state = []"
    by (simp add: received_state_def example_state_def)
  from receive_releases_once [OF a b c d ok] receive_releases_once [OF a b c d bad]
  show ?thesis
    unfolding rel tr by (simp, blast)
qed

subsection \<open>The dispatch loop\<close>

lemma event_loop_while_append:
  "event_loop_while e r (xs @ ys) s =
     (case event_loop_while e r xs s of
        Inl f \<Rightarrow> Inl f
      | Inr s' \<Rightarrow> event_loop_while e r ys s')"
  by (induction xs arbitrary: s) (simp_all split: sum.splits)

lemma event_loop_body_get_set:
  "m_type m = GNRC_NETAPI_MSG_TYPE_GET \<or> m_type m = GNRC_NETAPI_MSG_TYPE_SET \<Longrightarrow>
   event_loop_body e r m s = Inr (log_event (MsgReply m r) s)"
  by (auto simp: event_loop_body_def msg_reply_def)

lemma event_loop_body_unidentified:
  "unidentified (m_type m) \<Longrightarrow>
   event_loop_body e r m s
     = Inr (log_event (Debug ''aodvv2: received unidentified message'') s)"
  by (cases "m_type m") (simp_all add: event_loop_body_def unidentified_def)

text \<open>
  C7. Wherever in the run of the dispatch loop a GET or a SET message arrives, the loop
  answers it with \<open>msg_reply\<close> and a reply of type ACK whose value is
  \<open>(uint32_t)(-ENOTSUP)\<close>, which read as a signed number is \<open>-ENOTSUP\<close>. A message of a
  type the loop has no case for is logged and dropped. In both cases the loop goes on
  with the next message.
\<close>

theorem event_loop_unsupported:
  assumes "event_loop e pre s = Inr s1"
  shows "(m_type m = GNRC_NETAPI_MSG_TYPE_GET \<or> m_type m = GNRC_NETAPI_MSG_TYPE_SET \<longrightarrow>
            event_loop e (pre @ m # post) s =
              event_loop_while e (event_loop_reply e) post
                (log_event
                   (MsgReply m \<lparr>m_type = GNRC_NETAPI_MSG_TYPE_ACK,
                                m_content = ContentValue (word_of_int (- ENOTSUP e))\<rparr>) s1)) \<and>
         (unidentified (m_type m) \<longrightarrow>
            event_loop e (pre @ m # post) s =
              event_loop_while e (event_loop_reply e) post
                (log_event (Debug ''aodvv2: received unidentified message'') s1)) \<and>
         (0 < ENOTSUP e \<and> ENOTSUP e \<le> 2 ^ 31 \<longrightarrow>
            sint (word_of_int (- ENOTSUP e) :: 32 word) = - ENOTSUP e)"
proof -
  have pre: "event_loop_while e (event_loop_reply e) pre (log_event MsgInitQueue s) = Inr s1"
    using assms by (simp add: event_loop_def)
  have run: "event_loop e (pre @ m # post) s =
      (case event_loop_body e (event_loop_reply e) m s1 of
         Inl f \<Rightarrow> Inl f
       | Inr s' \<Rightarrow> event_loop_while e (event_loop_reply e) post s')"
    by (simp add: event_loop_def event_loop_while_append pre)
  have enc: "sint (word_of_int (- ENOTSUP e) :: 32 word) = - ENOTSUP e"
    if "0 < ENOTSUP e" "ENOTSUP e \<le> 2 ^ 31"
    unfolding sint_sbintrunc' using that by (simp add: signed_take_bit_int_eq_self)
  show ?thesis
    using run enc
    by (auto simp: event_loop_body_get_set event_loop_body_unidentified event_loop_reply_def)
qed

theorem event_loop_unsupported_witness:
  "event_loop example_env
     [\<lparr>m_type = GNRC_NETAPI_MSG_TYPE_GET, m_content = ContentValue 0\<rparr>,
      \<lparr>m_type = MSG_TYPE_OTHER 99, m_content = ContentValue 0\<rparr>] example_state
   = Inr (example_state\<lparr>trace :=
       [MsgInitQueue,
        MsgReply \<lparr>m_type = GNRC_NETAPI_MSG_TYPE_GET, m_content = ContentValue 0\<rparr>
                 \<lparr>m_type = GNRC_NETAPI_MSG_TYPE_ACK,
                  m_content = ContentValue (word_of_int (- 134))\<rparr>,
        Debug ''aodvv2: received unidentified message'']\<rparr>) \<and>
   sint (word_of_int (- 134) :: 32 word) = - 134"
proof -
  let ?get = "\<lparr>m_type = GNRC_NETAPI_MSG_TYPE_GET, m_content = ContentValue 0\<rparr>"
  let ?oth = "\<lparr>m_type = MSG_TYPE_OTHER 99, m_content = ContentValue 0\<rparr>"
  have en: "ENOTSUP example_env = 134" by (simp add: example_env_def)
  have pre: "event_loop example_env [] example_state = Inr (log_event MsgInitQueue example_state)"
    by (simp add: event_loop_def)
  have g: "m_type ?get = GNRC_NETAPI_MSG_TYPE_GET \<or> m_type ?get = GNRC_NETAPI_MSG_TYPE_SET"
    by simp
  have u: "unidentified (m_type ?oth)" by (simp add: unidentified_def)
  have rng: "0 < ENOTSUP example_env \<and> ENOTSUP example_env \<le> 2 ^ 31" by (simp add: en)
  from event_loop_unsupported [OF pre, of ?get "[?oth]"] g rng
  have 1: "event_loop example_env ([] @ [?get, ?oth]) example_state =
              event_loop_while example_env (event_loop_reply example_env) [?oth]
                (log_event
                   (MsgReply ?get \<lparr>m_type = GNRC_NETAPI_MSG_TYPE_ACK,
                                m_content = ContentValue (word_of_int (- ENOTSUP example_env))\<rparr>)
                   (log_event MsgInitQueue example_state))"
    and 2: "sint (word_of_int (- ENOTSUP example_env) :: 32 word) = - ENOTSUP example_env"
    by blast+
  have 3: "event_loop_while example_env (event_loop_reply example_env) [?oth] st
      = Inr (log_event (Debug ''aodvv2: received unidentified message'') st)" for st
    using u by (simp add: event_loop_body_unidentified)
  show ?thesis
    using 1 2 unfolding 3 en
    by (simp add: log_event_def example_state_def)
qed

end
